theory Spec2Isabelle
  imports Complex_Main "HOL-Library.Multiset" "HOL-Library.Sublist"
begin

section \<open>Exceptions\<close>

text \<open>
  The exceptions the notebook code can raise. \<open>LibraryError\<close> stands for any exception
  coming out of a call into an external library (transformers, optimum, datasets,
  onnxruntime); its payload is the library's message.
\<close>

datatype error =
    AssertionError string
  | NameError string
  | KeyError string
  | IndexError
  | ZeroDivisionError
  | FileNotFoundError string
  | LibraryError string

section \<open>Setup cell of the first notebook\<close>

text \<open>
  Python compares two \<open>str\<close> values code point by code point; a proper prefix is smaller.
  \<open>str_lt a b\<close> is \<open>a < b\<close>, \<open>str_gt a b\<close> is \<open>a > b\<close>.
\<close>

fun str_lt :: "string \<Rightarrow> string \<Rightarrow> bool" where
  "str_lt [] [] = False"
| "str_lt [] (y # ys) = True"
| "str_lt (x # xs) [] = False"
| "str_lt (x # xs) (y # ys) =
     ((of_char x :: nat) < of_char y \<or> (x = y \<and> str_lt xs ys))"

definition str_gt :: "string \<Rightarrow> string \<Rightarrow> bool" where
  "str_gt a b = str_lt b a"

text \<open>
  \<^verbatim>\<open>
  assert 'CUDAExecutionProvider' in get_available_providers(), "ONNX Runtime GPU provider not found. ..."
  assert "GPU" == get_device()
  assert onnxruntime.__version__ > "1.11.1", "you need a newer version of ONNX Runtime"
  \<close>
  The three values read from onnxruntime are the parameters.
\<close>

definition setup_cell :: "string list \<Rightarrow> string \<Rightarrow> string \<Rightarrow> error + unit" where
  "setup_cell available_providers device version =
     (if ''CUDAExecutionProvider'' \<notin> set available_providers
      then Inl (AssertionError ''ONNX Runtime GPU provider not found. Make sure onnxruntime-gpu is installed and onnxruntime is uninstalled.'')
      else if ''GPU'' \<noteq> device
      then Inl (AssertionError [])
      else if \<not> str_gt version ''1.11.1''
      then Inl (AssertionError ''you need a newer version of ONNX Runtime'')
      else Inr ())"

text \<open>
  What a numeric comparison of dotted versions would be: the components between the
  dots read as decimal numbers, compared component by component. The notebook does not
  do this; the definition is here to compare the string check with it.
\<close>

fun version_parts :: "string \<Rightarrow> nat \<Rightarrow> nat list" where
  "version_parts [] acc = [acc]"
| "version_parts (c # cs) acc =
     (if c = CHR ''.'' then acc # version_parts cs 0
      else version_parts cs (acc * 10 + (of_char c - 48)))"

fun nats_lt :: "nat list \<Rightarrow> nat list \<Rightarrow> bool" where
  "nats_lt [] [] = False"
| "nats_lt [] (y # ys) = True"
| "nats_lt (x # xs) [] = False"
| "nats_lt (x # xs) (y # ys) = (x < y \<or> (x = y \<and> nats_lt xs ys))"

definition numeric_version_gt :: "string \<Rightarrow> string \<Rightarrow> bool" where
  "numeric_version_gt a b = nats_lt (version_parts b 0) (version_parts a 0)"

section \<open>Requests, responses and pipelines\<close>

text \<open>
  What the notebooks pass to a pipeline: the question-answering pipelines are called as
  \<^verbatim>\<open>pipe(question=..., context=...)\<close>, the text-classification pipeline of the second
  notebook's benchmark cell as \<^verbatim>\<open>pipe(payload)\<close>.
\<close>

datatype request = QA (req_question: string) (req_context: string) | Text (req_payload: string)

text \<open>
  Modelled from the spec: the type of a question-answering pipeline's response is declared
  in the transformers library, not in the notebooks. The spec names its parts
  ("predicted answer span, score"), and the output recorded in the first notebook is
  \<^verbatim>\<open>{'score': 0.6575328707695007, 'start': 88, 'end': 102, 'answer': 'Technical Lead'}\<close>.
  The field \<open>end\<close> is written \<open>end_pos\<close>, and \<open>start\<close> \<open>start_pos\<close> beside it.
\<close>

record response =
  score :: real
  start_pos :: int
  end_pos :: int
  answer :: string

text \<open>
  A pipeline is an object of an external library: calling it may raise. \<open>pipe k req\<close> is
  the outcome of the \<open>k\<close>-th call made to the pipeline, so that two calls with the same
  request may behave differently.
\<close>

type_synonym 'r pipeline = "nat \<Rightarrow> request \<Rightarrow> error + 'r"

section \<open>numpy's statistics, over the reals\<close>

text \<open>
  \<open>np.mean\<close>, \<open>np.std\<close> (population standard deviation, \<open>ddof=0\<close>) and
  \<open>np.percentile\<close> with its default linear interpolation: the value at the virtual
  index \<open>(n - 1) * q / 100\<close> of the sorted sample. Python's floats are read as reals.
  On an empty sample numpy returns nan; \<open>measure_latency\<close> never passes one.
\<close>

definition np_mean :: "real list \<Rightarrow> real" where
  "np_mean a = sum_list a / real (length a)"

definition np_std :: "real list \<Rightarrow> real" where
  "np_std a = sqrt (np_mean (map (\<lambda>x. \<bar>x - np_mean a\<bar>\<^sup>2) a))"

definition np_percentile :: "real list \<Rightarrow> real \<Rightarrow> real" where
  "np_percentile a q =
     (let arr = sort a;
          n = length a;
          virtual_index = real (n - 1) * (q / 100);
          lo = nat \<lfloor>virtual_index\<rfloor>;
          hi = min (lo + 1) (n - 1);
          gamma = virtual_index - real lo
      in arr ! lo + (arr ! hi - arr ! lo) * gamma)"

section \<open>measure_latency\<close>

text \<open>
  The state of one run of \<open>measure_latency\<close>: the list \<open>latencies\<close>, how many calls the
  pipeline has received, how many readings of \<open>perf_counter\<close> were taken, and the order in
  which calls and readings happened.
\<close>

datatype event = PerfCounter nat | PipeCall nat request

record bench =
  latencies :: "real list"
  n_calls :: nat
  n_reads :: nat
  events :: "event list"

definition bench_init :: bench where
  "bench_init = \<lparr>latencies = [], n_calls = 0, n_reads = 0, events = []\<rparr>"

text \<open>\<open>clock k\<close> is what the \<open>k\<close>-th reading of \<open>perf_counter()\<close> returns, in seconds.\<close>

definition perf_counter :: "(nat \<Rightarrow> real) \<Rightarrow> bench \<Rightarrow> real \<times> bench" where
  "perf_counter clock b =
     (clock (n_reads b),
      b\<lparr>n_reads := Suc (n_reads b), events := events b @ [PerfCounter (n_reads b)]\<rparr>)"

definition call_pipe :: "'r pipeline \<Rightarrow> request \<Rightarrow> bench \<Rightarrow> error + ('r \<times> bench)" where
  "call_pipe pipe req b =
     (case pipe (n_calls b) req of
        Inl e \<Rightarrow> Inl e
      | Inr r \<Rightarrow> Inr (r, b\<lparr>n_calls := Suc (n_calls b),
                              events := events b @ [PipeCall (n_calls b) req]\<rparr>))"

text \<open>
  \<^verbatim>\<open>
  for _ in range(10):
      _ = pipe(question=question,context=context)
  \<close>
\<close>

fun warm_up :: "nat \<Rightarrow> 'r pipeline \<Rightarrow> request \<Rightarrow> bench \<Rightarrow> error + bench" where
  "warm_up 0 pipe req b = Inr b"
| "warm_up (Suc n) pipe req b =
     (case call_pipe pipe req b of
        Inl e \<Rightarrow> Inl e
      | Inr (_, b') \<Rightarrow> warm_up n pipe req b')"

text \<open>
  \<^verbatim>\<open>
  for _ in range(300):
      start_time = perf_counter()
      _ =  pipe(question=question,context=context)
      latency = perf_counter() - start_time
      latencies.append(latency)
  \<close>
\<close>

fun timed_run :: "nat \<Rightarrow> 'r pipeline \<Rightarrow> (nat \<Rightarrow> real) \<Rightarrow> request \<Rightarrow> bench \<Rightarrow> error + bench" where
  "timed_run 0 pipe clock req b = Inr b"
| "timed_run (Suc n) pipe clock req b =
     (case perf_counter clock b of (start_time, b1) \<Rightarrow>
      (case call_pipe pipe req b1 of
         Inl e \<Rightarrow> Inl e
       | Inr (_, b2) \<Rightarrow>
          (case perf_counter clock b2 of (now, b3) \<Rightarrow>
             let latency = now - start_time
             in timed_run n pipe clock req (b3\<lparr>latencies := latencies b3 @ [latency]\<rparr>))))"

definition run_loops :: "'r pipeline \<Rightarrow> (nat \<Rightarrow> real) \<Rightarrow> request \<Rightarrow> error + bench" where
  "run_loops pipe clock req =
     (case warm_up 10 pipe req bench_init of
        Inl e \<Rightarrow> Inl e
      | Inr b \<Rightarrow> timed_run 300 pipe clock req b)"

text \<open>
  An f-string is kept as the list of its parts: literal text, a float printed by
  \<open>str\<close> (\<open>{x}\<close>), a float printed with a fixed number of decimals (\<open>{x:.2f}\<close>), and
  an integer.
\<close>

datatype piece = Lit string | Repr real | Fixed nat real | Whole int

text \<open>
  \<^verbatim>\<open>
  time_avg_ms = 1000 * np.mean(latencies)
  time_std_ms = 1000 * np.std(latencies)
  time_p95_ms = 1000 * np.percentile(latencies,95)
  return f"P95 latency (ms) - {time_p95_ms}; Average latency (ms) - {time_avg_ms:.2f} +\- {time_std_ms:.2f};", time_p95_ms
  \<close>
  The request is what the two notebooks differ in.
\<close>

definition measure_latency_with ::
  "request \<Rightarrow> 'r pipeline \<Rightarrow> (nat \<Rightarrow> real) \<Rightarrow> error + (piece list \<times> real)" where
  "measure_latency_with req pipe clock =
     (case run_loops pipe clock req of
        Inl e \<Rightarrow> Inl e
      | Inr b \<Rightarrow>
         let time_avg_ms = 1000 * np_mean (latencies b);
             time_std_ms = 1000 * np_std (latencies b);
             time_p95_ms = 1000 * np_percentile (latencies b) 95
         in Inr ([Lit ''P95 latency (ms) - '', Repr time_p95_ms,
                  Lit ''; Average latency (ms) - '', Fixed 2 time_avg_ms,
                  Lit ('' +'' @ [CHR 0x5C] @ ''- ''), Fixed 2 time_std_ms, Lit '';''],
                 time_p95_ms))"

definition bench_context :: string where
  "bench_context = ''Hello, my name is Philipp and I live in Nuremberg, Germany. Currently I am working as a Technical Lead at Hugging Face to democratize artificial intelligence through open source and open science. In the past I designed and implemented cloud-native machine learning architectures for fin-tech and insurance companies. I found my passion for cloud concepts and machine learning 5 years ago. Since then I never stopped learning. Currently, I am focusing myself in the area NLP and how to leverage models like BERT, Roberta, T5, ViT, and GPT2 to generate business value.''"

definition bench_question :: string where
  "bench_question = ''As what is Philipp working?''"

definition bench_payload :: string where
  "bench_payload =
     concat (replicate 2 (''Hello my name is Philipp. I am getting in touch with you because i didn'' @ [CHR 0x27] @ ''t get a response from you. What do I need to do to get my new card which I have requested 2 weeks ago? Please help me and answer this email in the next 7 days. Best regards and have a nice weekend ''))"

text \<open>First notebook: \<^verbatim>\<open>pipe(question=question,context=context)\<close>.\<close>

definition measure_latency :: "'r pipeline \<Rightarrow> (nat \<Rightarrow> real) \<Rightarrow> error + (piece list \<times> real)" where
  "measure_latency = measure_latency_with (QA bench_question bench_context)"

text \<open>Second notebook: \<^verbatim>\<open>pipe(payload)\<close>.\<close>

definition measure_latency_nb2 :: "'r pipeline \<Rightarrow> (nat \<Rightarrow> real) \<Rightarrow> error + (piece list \<times> real)" where
  "measure_latency_nb2 = measure_latency_with (Text bench_payload)"


section \<open>Dataset evaluation\<close>

text \<open>
  A row of the SQuAD validation split, with the four columns the notebooks read:
  \<^verbatim>\<open>example['id']\<close>, \<^verbatim>\<open>example["question"]\<close>, \<^verbatim>\<open>example["context"]\<close> and
  \<^verbatim>\<open>example['answers']\<close>, the latter a dictionary of the answer texts and their offsets.
\<close>

record answers =
  text_list :: "string list"
  answer_start :: "int list"

record example =
  ex_id :: string
  ex_title :: string
  ex_context :: string
  ex_question :: string
  ex_answers :: answers

text \<open>The three dictionaries \<open>evaluate\<close> builds for one example.\<close>

record reference_entry =
  ref_id :: string
  ref_answers :: answers

record prediction_entry =
  pred_id :: string
  prediction_text :: string

record prediction_entry_nb2 = prediction_entry +
  no_answer_probability :: real

record ('p) eval_row =
  reference :: reference_entry
  default :: 'p
  optimized :: 'p

text \<open>
  First notebook:
  \<^verbatim>\<open>
  def evaluate(example):
    default = vanilla_qa(question=example["question"], context=example["context"])
    optimized = optimized_qa(question=example["question"], context=example["context"])
    return {
        'reference': {'id': example['id'], 'answers': example['answers']},
        'default': {'id': example['id'],'prediction_text': default['answer']},
        'optimized': {'id': example['id'],'prediction_text': optimized['answer']},
        }
  \<close>
  \<open>vanilla_qa\<close> and \<open>optimized_qa\<close> are globals of the notebook; here they are the outcome
  of the one call each receives. The locals \<open>default\<close> and \<open>optimized\<close> are written
  \<open>default_res\<close> and \<open>optimized_res\<close>, the plain names being the keys of the result.
\<close>

definition evaluate ::
  "(request \<Rightarrow> error + response) \<Rightarrow> (request \<Rightarrow> error + response) \<Rightarrow> example
     \<Rightarrow> error + prediction_entry eval_row" where
  "evaluate vanilla_qa optimized_qa example =
     (case vanilla_qa (QA (ex_question example) (ex_context example)) of
        Inl e \<Rightarrow> Inl e
      | Inr default_res \<Rightarrow>
         (case optimized_qa (QA (ex_question example) (ex_context example)) of
            Inl e \<Rightarrow> Inl e
          | Inr optimized_res \<Rightarrow>
             Inr \<lparr>reference = \<lparr>ref_id = ex_id example, ref_answers = ex_answers example\<rparr>,
                  default = \<lparr>pred_id = ex_id example, prediction_text = answer default_res\<rparr>,
                  optimized = \<lparr>pred_id = ex_id example, prediction_text = answer optimized_res\<rparr>\<rparr>))"

text \<open>
  Second notebook: the pipelines are read from the globals \<open>optimum_qa\<close> and
  \<open>opt_optimum_qa\<close>, which no cell of that notebook assigns; \<open>None\<close> is the unbound name,
  whose lookup raises NameError. Each prediction also has
  \<^verbatim>\<open>'no_answer_probability': 0.\<close>
\<close>

definition evaluate_nb2 ::
  "(request \<Rightarrow> error + response) option \<Rightarrow> (request \<Rightarrow> error + response) option \<Rightarrow> example
     \<Rightarrow> error + prediction_entry_nb2 eval_row" where
  "evaluate_nb2 optimum_qa opt_optimum_qa example =
     (case optimum_qa of
        None \<Rightarrow> Inl (NameError ''optimum_qa'')
      | Some vanilla \<Rightarrow>
         (case vanilla (QA (ex_question example) (ex_context example)) of
            Inl e \<Rightarrow> Inl e
          | Inr default_res \<Rightarrow>
             (case opt_optimum_qa of
                None \<Rightarrow> Inl (NameError ''opt_optimum_qa'')
              | Some opt \<Rightarrow>
                 (case opt (QA (ex_question example) (ex_context example)) of
                    Inl e \<Rightarrow> Inl e
                  | Inr optimized_res \<Rightarrow>
                     Inr \<lparr>reference = \<lparr>ref_id = ex_id example, ref_answers = ex_answers example\<rparr>,
                          default = \<lparr>pred_id = ex_id example, prediction_text = answer default_res,
                                     no_answer_probability = 0\<rparr>,
                          optimized = \<lparr>pred_id = ex_id example, prediction_text = answer optimized_res,
                                       no_answer_probability = 0\<rparr>\<rparr>))))"

text \<open>
  \<open>Dataset.map\<close> and \<open>Dataset.select\<close> of the datasets library. \<open>map\<close> applies the
  function to the rows in order and adds the entries it returns to each row as new
  columns: a row of the result is the pair of the example and of what the function
  returned for it. An exception of the function ends the map. The function receives the
  position of the row, so that the pipelines may answer each row's call differently.
  \<open>select\<close> keeps the rows at the given positions and raises IndexError when a
  position is not one of the dataset.
\<close>

fun dataset_map :: "(nat \<Rightarrow> 'a \<Rightarrow> error + 'b) \<Rightarrow> nat \<Rightarrow> 'a list \<Rightarrow> error + ('a \<times> 'b) list" where
  "dataset_map f i [] = Inr []"
| "dataset_map f i (x # xs) =
     (case f i x of
        Inl e \<Rightarrow> Inl e
      | Inr y \<Rightarrow>
         (case dataset_map f (Suc i) xs of
            Inl e \<Rightarrow> Inl e
          | Inr rows \<Rightarrow> Inr ((x, y) # rows)))"

definition dataset_select :: "'a list \<Rightarrow> nat list \<Rightarrow> error + 'a list" where
  "dataset_select ds indices =
     (if list_all (\<lambda>i. i < length ds) indices then Inr (map (\<lambda>i. ds ! i) indices)
      else Inl IndexError)"

text \<open>A column of the mapped dataset: \<^verbatim>\<open>result["default"]\<close>.\<close>

definition column :: "('r \<Rightarrow> 'c) \<Rightarrow> ('a \<times> 'r) list \<Rightarrow> 'c list" where
  "column field rows = map (\<lambda>row. field (snd row)) rows"

text \<open>
  What \<open>metric.compute\<close> returns is a dictionary from the names of the scores to their
  values: \<open>exact_match\<close> and \<open>f1\<close> for the squad metric of the first notebook, \<open>exact\<close>,
  \<open>f1\<close> and others for squad_v2. The metric itself is a parameter.
\<close>

type_synonym scores = "string \<rightharpoonup> real"

type_synonym 'p metric = "'p list \<Rightarrow> reference_entry list \<Rightarrow> error + scores"

definition lookup :: "scores \<Rightarrow> string \<Rightarrow> error + real" where
  "lookup d key = (case d key of None \<Rightarrow> Inl (KeyError key) | Some v \<Rightarrow> Inr v)"

text \<open>
  \<^verbatim>\<open>
  result = eval_dataset.map(evaluate)

  default_acc = metric.compute(predictions=result["default"], references=result["reference"])
  optimized = metric.compute(predictions=result["optimized"], references=result["reference"])
  \<close>
  The cell is the same in both notebooks up to \<open>evaluate\<close>, which is the parameter
  \<open>evaluate_fn\<close>; the position of the row selects the call of each pipeline.
\<close>

definition evaluation_step ::
  "(nat \<Rightarrow> example \<Rightarrow> error + 'p eval_row) \<Rightarrow> 'p metric \<Rightarrow> example list
     \<Rightarrow> error + ((example \<times> 'p eval_row) list \<times> scores \<times> scores)" where
  "evaluation_step evaluate_fn metric eval_dataset =
     (case dataset_map evaluate_fn 0 eval_dataset of
        Inl e \<Rightarrow> Inl e
      | Inr result \<Rightarrow>
         (case metric (column default result) (column reference result) of
            Inl e \<Rightarrow> Inl e
          | Inr default_acc \<Rightarrow>
             (case metric (column optimized result) (column reference result) of
                Inl e \<Rightarrow> Inl e
              | Inr optimized_acc \<Rightarrow> Inr (result, default_acc, optimized_acc))))"

text \<open>
  First notebook: \<^verbatim>\<open>eval_dataset = load_dataset("squad")["validation"]\<close>, the selection of a
  subset being commented out. The argument \<open>validation\<close> is the loaded split.
\<close>

definition evaluation_nb1 ::
  "response pipeline \<Rightarrow> response pipeline \<Rightarrow> prediction_entry metric \<Rightarrow> example list
     \<Rightarrow> error + ((example \<times> prediction_entry eval_row) list \<times> scores \<times> scores)" where
  "evaluation_nb1 vanilla_qa optimized_qa metric validation =
     (let eval_dataset = validation
      in evaluation_step (\<lambda>i. evaluate (vanilla_qa i) (optimized_qa i)) metric eval_dataset)"

text \<open>
  Second notebook:
  \<^verbatim>\<open>
  eval_dataset = load_dataset("squad_v2")["validation"]
  eval_dataset = eval_dataset.select(range(1000))
  \<close>
\<close>

definition evaluation_nb2 ::
  "response pipeline option \<Rightarrow> response pipeline option \<Rightarrow> prediction_entry_nb2 metric
     \<Rightarrow> example list
     \<Rightarrow> error + ((example \<times> prediction_entry_nb2 eval_row) list \<times> scores \<times> scores)" where
  "evaluation_nb2 optimum_qa opt_optimum_qa metric validation =
     (case dataset_select validation [0..<1000] of
        Inl e \<Rightarrow> Inl e
      | Inr eval_dataset \<Rightarrow>
         evaluation_step
           (\<lambda>i. evaluate_nb2 (map_option (\<lambda>p. p i) optimum_qa) (map_option (\<lambda>p. p i) opt_optimum_qa))
           metric eval_dataset)"

section \<open>Rounding and formatting of floats\<close>

text \<open>
  Rounding to the nearest value with a given number of decimals, a tie going to the
  even last digit, as Python's \<open>round(x, ndigits)\<close> and the format \<open>.nf\<close> do on the
  exact value of a float.
\<close>

definition round_half_even :: "real \<Rightarrow> int" where
  "round_half_even x =
     (let f = \<lfloor>x\<rfloor>; d = x - of_int f
      in if d < 1 / 2 then f
         else if 1 / 2 < d then f + 1
         else if even f then f else f + 1)"

definition py_round :: "real \<Rightarrow> nat \<Rightarrow> real" where
  "py_round x ndigits = of_int (round_half_even (x * 10 ^ ndigits)) / 10 ^ ndigits"





section \<open>Printed reports\<close>

text \<open>
  The arithmetic of floats belongs to the Python runtime and to numpy, not to the
  notebooks: a quotient, a product and \<open>round\<close> return the float nearest to the exact
  result, and which float that is decides a printed figure at a tie. The float
  \<open>99.5 / 100.0\<close> lies below 0.995, so that its ratio rounds to 0.99, where the exact
  quotient would round to 1.00. The operations are therefore parameters, each float
  being the real number it is: \<open>fdiv ops a b\<close> is the float \<open>a / b\<close> for \<open>b \<noteq> 0\<close>,
  \<open>fmul ops a b\<close> the float \<open>a * b\<close>, \<open>fround ops x n\<close> is Python's \<open>round(x, n)\<close> and
  \<open>np_round ops x n\<close> is \<open>round(x, n)\<close> of a numpy float.
\<close>

record float_ops =
  fdiv :: "real \<Rightarrow> real \<Rightarrow> real"
  fmul :: "real \<Rightarrow> real \<Rightarrow> real"
  fround :: "real \<Rightarrow> nat \<Rightarrow> real"
  np_round :: "real \<Rightarrow> nat \<Rightarrow> real"

text \<open>
  The operations read over the reals, with no rounding to a float: what they return
  differs from the floats of the runtime by the rounding error of each operation.
\<close>

definition exact_ops :: float_ops where
  "exact_ops = \<lparr>fdiv = (\<lambda>a b. a / b), fmul = (\<lambda>a b. a * b), fround = py_round,
                 np_round = py_round\<rparr>"

text \<open>
  A cell prints line after line until a statement raises: the result is the lines
  printed and the exception, if any.
\<close>

fun print_all :: "(error + piece list) list \<Rightarrow> piece list list \<times> error option" where
  "print_all [] = ([], None)"
| "print_all (Inl e # rest) = ([], Some e)"
| "print_all (Inr line # rest) = (case print_all rest of (ls, e) \<Rightarrow> (line # ls, e))"

text \<open>
  First notebook, after the two calls of \<open>metric.compute\<close>:
  \<^verbatim>\<open>
  print(f"vanilla model: f1={default_acc['f1']}%")
  print(f"optimized model: f1={optimized['f1']}%")
  print(f"The optimized model achieves {round(optimized['f1']/default_acc['f1'],2)*100:.2f}% accuracy of the fp32 model")
  \<close>
  The division of two Python floats raises ZeroDivisionError on a zero divisor.
\<close>

definition retention_line_nb1 :: "float_ops \<Rightarrow> scores \<Rightarrow> scores \<Rightarrow> error + piece list" where
  "retention_line_nb1 ops default_acc optimized_acc =
     (case lookup optimized_acc ''f1'' of
        Inl e \<Rightarrow> Inl e
      | Inr opt_f1 \<Rightarrow>
         (case lookup default_acc ''f1'' of
            Inl e \<Rightarrow> Inl e
          | Inr van_f1 \<Rightarrow>
             if van_f1 = 0 then Inl ZeroDivisionError
             else Inr [Lit ''The optimized model achieves '',
                       Fixed 2 (fmul ops (fround ops (fdiv ops opt_f1 van_f1) 2) 100),
                       Lit ''% accuracy of the fp32 model'']))"

definition eval_print_nb1 ::
  "float_ops \<Rightarrow> scores \<Rightarrow> scores \<Rightarrow> piece list list \<times> error option" where
  "eval_print_nb1 ops default_acc optimized_acc =
     print_all
       [case lookup default_acc ''f1'' of
          Inl e \<Rightarrow> Inl e
        | Inr v \<Rightarrow> Inr [Lit ''vanilla model: f1='', Repr v, Lit ''%''],
        case lookup optimized_acc ''f1'' of
          Inl e \<Rightarrow> Inl e
        | Inr v \<Rightarrow> Inr [Lit ''optimized model: f1='', Repr v, Lit ''%''],
        retention_line_nb1 ops default_acc optimized_acc]"

text \<open>
  The evaluation cell of the first notebook as a whole: the map of \<open>evaluate\<close> over the
  dataset, the two calls of \<open>metric.compute\<close>, then the three prints.
\<close>

definition evaluation_cell_nb1 ::
  "float_ops \<Rightarrow> response pipeline \<Rightarrow> response pipeline \<Rightarrow> prediction_entry metric
     \<Rightarrow> example list \<Rightarrow> piece list list \<times> error option" where
  "evaluation_cell_nb1 ops vanilla_qa optimized_qa metric validation =
     (case evaluation_nb1 vanilla_qa optimized_qa metric validation of
        Inl e \<Rightarrow> ([], Some e)
      | Inr (result, default_acc, optimized_acc) \<Rightarrow> eval_print_nb1 ops default_acc optimized_acc)"

text \<open>
  Second notebook:
  \<^verbatim>\<open>
  print(f"vanilla model: exact={default_acc['exact']}% f1={default_acc['f1']}%")
  print(f"optimized model: exact={optimized['exact']}% f1={optimized['f1']}%")
  print(f"quantized model: exact={quantized['exact']}% f1={quantized['f1']}%")

  print(f"Vanilla model: 92.5%")
  print(f"Quantized model: {results['accuracy']*100:.2f}%")
  print(f"The quantized model achieves {round(results['accuracy']/0.925,4)*100:.2f}% accuracy of the fp32 model")
  \<close>
  No cell of the notebook assigns \<open>quantized\<close> or \<open>results\<close>: they are parameters, \<open>None\<close>
  being the unbound name.
\<close>

definition exact_f1_line :: "string \<Rightarrow> string \<Rightarrow> scores option \<Rightarrow> error + piece list" where
  "exact_f1_line label name acc =
     (case acc of
        None \<Rightarrow> Inl (NameError name)
      | Some d \<Rightarrow>
         (case lookup d ''exact'' of
            Inl e \<Rightarrow> Inl e
          | Inr ex \<Rightarrow>
             (case lookup d ''f1'' of
                Inl e \<Rightarrow> Inl e
              | Inr f \<Rightarrow> Inr [Lit (label @ '' model: exact=''), Repr ex, Lit ''% f1='', Repr f,
                               Lit ''%''])))"

definition retention_line_nb2 :: "float_ops \<Rightarrow> scores option \<Rightarrow> error + piece list" where
  "retention_line_nb2 ops results =
     (case results of
        None \<Rightarrow> Inl (NameError ''results'')
      | Some d \<Rightarrow>
         (case lookup d ''accuracy'' of
            Inl e \<Rightarrow> Inl e
          | Inr acc \<Rightarrow>
             Inr [Lit ''The quantized model achieves '',
                  Fixed 2 (fmul ops (fround ops (fdiv ops acc (925 / 1000)) 4) 100),
                  Lit ''% accuracy of the fp32 model'']))"

definition eval_print_nb2 ::
  "float_ops \<Rightarrow> scores \<Rightarrow> scores \<Rightarrow> scores option \<Rightarrow> scores option
     \<Rightarrow> piece list list \<times> error option" where
  "eval_print_nb2 ops default_acc optimized_acc quantized results =
     print_all
       [exact_f1_line ''vanilla'' ''default_acc'' (Some default_acc),
        exact_f1_line ''optimized'' ''optimized'' (Some optimized_acc),
        exact_f1_line ''quantized'' ''quantized'' quantized,
        Inr [Lit ''Vanilla model: 92.5%''],
        case results of
          None \<Rightarrow> Inl (NameError ''results'')
        | Some d \<Rightarrow>
           (case lookup d ''accuracy'' of
              Inl e \<Rightarrow> Inl e
            | Inr acc \<Rightarrow> Inr [Lit ''Quantized model: '', Fixed 2 (fmul ops acc 100), Lit ''%'']),
        retention_line_nb2 ops results]"

text \<open>
  The evaluation cells of the second notebook as a whole: the selection of the first
  1000 rows, the map of \<open>evaluate\<close>, the two calls of \<open>metric.compute\<close>, then the prints.
\<close>

definition evaluation_cells_nb2 ::
  "float_ops \<Rightarrow> response pipeline option \<Rightarrow> response pipeline option
     \<Rightarrow> prediction_entry_nb2 metric \<Rightarrow> example list \<Rightarrow> scores option \<Rightarrow> scores option
     \<Rightarrow> piece list list \<times> error option" where
  "evaluation_cells_nb2 ops optimum_qa opt_optimum_qa metric validation quantized results =
     (case evaluation_nb2 optimum_qa opt_optimum_qa metric validation of
        Inl e \<Rightarrow> ([], Some e)
      | Inr (result, default_acc, optimized_acc) \<Rightarrow>
         eval_print_nb2 ops default_acc optimized_acc quantized results)"

text \<open>
  The benchmark cell of the first notebook:
  \<^verbatim>\<open>
  vanilla_model=measure_latency(vanilla_qa)
  optimized_model=measure_latency(optimized_qa)

  print(f"Vanilla model: {vanilla_model[0]}")
  print(f"Optimized model: {optimized_model[0]}")
  print(f"Improvement through optimization: {round(vanilla_model[1]/optimized_model[1],2)}x")
  \<close>
  The second measurement reads the clock after the 600 readings of the first. The two
  P95 values are numpy floats, whose division by zero gives \<open>inf\<close>, \<open>-inf\<close> or \<open>nan\<close>
  and does not raise.
\<close>

definition improvement :: "float_ops \<Rightarrow> real \<Rightarrow> real \<Rightarrow> piece" where
  "improvement ops a b =
     (if b = 0 then (if a = 0 then Lit ''nan'' else if 0 < a then Lit ''inf'' else Lit ''-inf'')
      else Repr (np_round ops (fdiv ops a b) 2))"

definition benchmark_print ::
  "float_ops \<Rightarrow> string \<Rightarrow> string \<Rightarrow> error + (piece list \<times> real)
     \<Rightarrow> error + (piece list \<times> real) \<Rightarrow> piece list list \<times> error option" where
  "benchmark_print ops second_label what first_result second_result =
     (case first_result of
        Inl e \<Rightarrow> ([], Some e)
      | Inr vanilla_model \<Rightarrow>
         (case second_result of
            Inl e \<Rightarrow> ([], Some e)
          | Inr other_model \<Rightarrow>
             ([Lit ''Vanilla model: '' # fst vanilla_model,
               Lit (second_label @ '' model: '') # fst other_model,
               [Lit (''Improvement through '' @ what @ '': ''),
                improvement ops (snd vanilla_model) (snd other_model), Lit ''x'']], None)))"

definition benchmark_nb1 ::
  "float_ops \<Rightarrow> 'r pipeline \<Rightarrow> 'r pipeline \<Rightarrow> (nat \<Rightarrow> real)
     \<Rightarrow> piece list list \<times> error option" where
  "benchmark_nb1 ops vanilla_qa optimized_qa clock =
     benchmark_print ops ''Optimized'' ''optimization''
       (measure_latency vanilla_qa clock)
       (measure_latency optimized_qa (\<lambda>k. clock (600 + k)))"

text \<open>
  The benchmark cell of the second notebook measures a text-classification pipeline
  \<open>vanilla_clx\<close>, created in the cell, and the global \<open>clx\<close>, which no cell assigns;
  \<open>payload_length\<close> is what the tokenizer's count in the first line evaluates to:
  \<^verbatim>\<open>
  print(f'Payload sequence length: {len(tokenizer(payload)["input_ids"])}')
  ...
  vanilla_clx = pipeline("text-classification",model=model_id)

  vanilla_model=measure_latency(vanilla_clx)
  quantized_model=measure_latency(clx)

  print(f"Vanilla model: {vanilla_model[0]}")
  print(f"Quantized model: {quantized_model[0]}")
  print(f"Improvement through quantization: {round(vanilla_model[1]/quantized_model[1],2)}x")
  \<close>
\<close>

definition benchmark_nb2 ::
  "float_ops \<Rightarrow> error + nat \<Rightarrow> 'r pipeline \<Rightarrow> 'r pipeline option \<Rightarrow> (nat \<Rightarrow> real)
     \<Rightarrow> piece list list \<times> error option" where
  "benchmark_nb2 ops payload_length vanilla_clx clx clock =
     (case payload_length of
        Inl e \<Rightarrow> ([], Some e)
      | Inr n \<Rightarrow>
         (case
            (case measure_latency_nb2 vanilla_clx clock of
               Inl e \<Rightarrow> ([], Some e)
             | Inr vanilla_model \<Rightarrow>
                (case clx of
                   None \<Rightarrow> ([], Some (NameError ''clx''))
                 | Some quantized_pipe \<Rightarrow>
                    benchmark_print ops ''Quantized'' ''quantization'' (Inr vanilla_model)
                      (measure_latency_nb2 quantized_pipe (\<lambda>k. clock (600 + k)))))
          of (ls, e) \<Rightarrow> ([Lit ''Payload sequence length: '', Whole (int n)] # ls, e)))"

section \<open>Sample inputs\<close>

text \<open>
  Concrete inputs on which the statements below are instantiated: a row of the
  validation split, the response recorded in the first notebook, pipelines that return
  it at every call, and a metric that returns fixed scores.
\<close>

definition sample_example :: example where
  "sample_example =
     \<lparr>ex_id = ''56be4db0acb8001400a502ec'', ex_title = ''Super_Bowl_50'',
      ex_context = ''The American Football Conference (AFC) champion Denver Broncos defeated the National Football Conference (NFC) champion Carolina Panthers 24-10.'',
      ex_question = ''Which NFL team represented the AFC at Super Bowl 50?'',
      ex_answers = \<lparr>text_list = [''Denver Broncos'', ''Denver Broncos'', ''Denver Broncos''],
                     answer_start = [48, 48, 48]\<rparr>\<rparr>"

definition sample_response :: response where
  "sample_response =
     \<lparr>score = 6575328707695007 / 10 ^ 16, start_pos = 88, end_pos = 102,
      answer = ''Technical Lead''\<rparr>"

definition sample_qa :: "response pipeline" where
  "sample_qa k req = Inr sample_response"

definition sample_metric :: "'p metric" where
  "sample_metric predictions references = Inr [''exact_match'' \<mapsto> 80, ''f1'' \<mapsto> 87]"

text \<open>A split of \<open>n\<close> rows with distinct ids.\<close>

definition sample_split :: "nat \<Rightarrow> example list" where
  "sample_split n = map (\<lambda>i. sample_example\<lparr>ex_id := replicate i CHR ''x''\<rparr>) [0..<n]"

text \<open>
  A text-classification pipeline that returns, at every call, the labels recorded in the
  second notebook.
\<close>

definition sample_clx :: "(string \<times> real) list pipeline" where
  "sample_clx k req = Inr [(''exchange_rate'', 9802021384239197 / 10 ^ 16)]"

section \<open>The notebooks, statement by statement\<close>

text \<open>
  The kernel a notebook runs in: the files on disk (path to size in bytes), the global
  names that are bound, the calls made into libraries so far, and the exception that
  stopped the run, if any. The cells run from top to bottom and the run stops at the
  first exception.
\<close>

type_synonym files = "string \<rightharpoonup> nat"

datatype purpose = Demo | Bench

datatype lib_call =
    PipInstall
  | Import string
  | GetAvailableProviders
  | GetDevice
  | ExportToOnnx
  | LoadOnnxModel
  | LoadTokenizer
  | SaveModel
  | SaveTokenizer
  | Tokenize
  | CreatePipeline string
  | CallPipeline purpose
  | LoadOptimizer
  | MakeConfig
  | OptimizerExport
  | LoadQuantizer
  | QuantizerExport
  | LoadMetric
  | LoadDataset
  | DatasetSelect
  | DatasetMap
  | MetricCompute

record kernel =
  files :: files
  names :: "string set"
  trace :: "lib_call list"
  raised :: "error option"

definition kernel_with :: "files \<Rightarrow> string set \<Rightarrow> kernel" where
  "kernel_with fs bound = \<lparr>files = fs, names = bound, trace = [], raised = None\<rparr>"

definition fresh_kernel :: "files \<Rightarrow> kernel" where
  "fresh_kernel fs = kernel_with fs {}"

text \<open>
  What a library call does is not in the notebooks: \<open>ext i c fs\<close> is the exception (if
  any) and the files left by the call \<open>c\<close> made as the \<open>i\<close>-th call on the files \<open>fs\<close>.
\<close>

type_synonym ext = "nat \<Rightarrow> lib_call \<Rightarrow> files \<Rightarrow> error option \<times> files"

text \<open>
  The statements of a notebook: a call into a library; the read of a global name, which
  raises NameError when the name is unbound; the binding of a name; \<open>os.path.getsize\<close>;
  a statement of the notebook's own whose raising depends on data (an \<open>assert\<close>, a
  \<open>print\<close> that looks up a key or divides) and on the names bound. \<open>WriteFile\<close> and
  \<open>RemoveFile\<close> are what writing a file (\<open>open(path, 'w')\<close>) and deleting one
  (\<open>os.remove\<close>) would be.
\<close>

datatype stmt =
    Lib lib_call
  | Use string
  | Assign string
  | GetSize string
  | Check "string set \<Rightarrow> error option"
  | WriteFile string nat
  | RemoveFile string

fun exec :: "ext \<Rightarrow> stmt \<Rightarrow> kernel \<Rightarrow> kernel" where
  "exec ext (Lib c) k =
     (case ext (length (trace k)) c (files k) of
        (e, fs) \<Rightarrow> k\<lparr>files := fs, trace := trace k @ [c], raised := e\<rparr>)"
| "exec ext (Use x) k = (if x \<in> names k then k else k\<lparr>raised := Some (NameError x)\<rparr>)"
| "exec ext (Assign x) k = k\<lparr>names := insert x (names k)\<rparr>"
| "exec ext (GetSize path) k =
     (case files k path of
        None \<Rightarrow> k\<lparr>raised := Some (FileNotFoundError path)\<rparr>
      | Some n \<Rightarrow> k)"
| "exec ext (Check f) k = k\<lparr>raised := f (names k)\<rparr>"
| "exec ext (WriteFile path n) k = k\<lparr>files := (files k)(path \<mapsto> n)\<rparr>"
| "exec ext (RemoveFile path) k =
     (case files k path of
        None \<Rightarrow> k\<lparr>raised := Some (FileNotFoundError path)\<rparr>
      | Some n \<Rightarrow> k\<lparr>files := (files k)(path := None)\<rparr>)"

fun run :: "ext \<Rightarrow> stmt list \<Rightarrow> kernel \<Rightarrow> kernel" where
  "run ext [] k = k"
| "run ext (s # ss) k = (if raised k \<noteq> None then k else run ext ss (exec ext s k))"

text \<open>Shapes of statements that recur in the cells.\<close>

definition import_from :: "string \<Rightarrow> string list \<Rightarrow> stmt list" where
  "import_from module_name xs = Lib (Import module_name) # map Assign xs"

definition call :: "string list \<Rightarrow> lib_call \<Rightarrow> stmt list" where
  "call xs c = map Use xs @ [Lib c]"

definition assign_call :: "string \<Rightarrow> string list \<Rightarrow> lib_call \<Rightarrow> stmt list" where
  "assign_call x xs c = map Use xs @ [Lib c, Assign x]"

text \<open>
  A call \<open>x = measure_latency(pipe)\<close>: the argument is read, then the body makes the 10
  and the 300 calls of the pipeline with the globals it reads. The clock and numpy
  touch neither the files nor the names.
\<close>

definition measure_latency_stmts :: "string \<Rightarrow> string \<Rightarrow> string list \<Rightarrow> stmt list" where
  "measure_latency_stmts x pipe globals =
     [Use ''measure_latency'', Use pipe] @
     concat (replicate 10 (map Use globals @ [Lib (CallPipeline Bench)])) @
     concat (replicate 300 (Use ''perf_counter'' # map Use globals @
                            [Lib (CallPipeline Bench), Use ''perf_counter''])) @
     [Use ''np'', Use ''np'', Use ''np'', Assign x]"

subsection \<open>First notebook\<close>

definition nb1_install :: "stmt list" where
  "nb1_install = [Lib PipInstall]"

definition nb1_setup :: "string list \<Rightarrow> string \<Rightarrow> string \<Rightarrow> stmt list" where
  "nb1_setup available_providers device version =
     import_from ''onnxruntime'' [''get_available_providers'', ''get_device''] @
     import_from ''onnxruntime'' [''onnxruntime''] @
     call [''get_available_providers''] GetAvailableProviders @
     [Check (\<lambda>_. if ''CUDAExecutionProvider'' \<in> set available_providers then None
                   else Some (AssertionError ''ONNX Runtime GPU provider not found. Make sure onnxruntime-gpu is installed and onnxruntime is uninstalled.''))] @
     call [''get_device''] GetDevice @
     [Check (\<lambda>_. if ''GPU'' = device then None else Some (AssertionError [])),
      Use ''onnxruntime'',
      Check (\<lambda>_. if str_gt version ''1.11.1'' then None
                   else Some (AssertionError ''you need a newer version of ONNX Runtime''))]"

definition export_cell :: "stmt list" where
  "export_cell =
     import_from ''optimum.onnxruntime'' [''ORTModelForQuestionAnswering''] @
     import_from ''transformers'' [''AutoTokenizer''] @
     import_from ''pathlib'' [''Path''] @
     [Assign ''model_id'', Use ''Path'', Assign ''onnx_path''] @
     assign_call ''model'' [''ORTModelForQuestionAnswering'', ''model_id''] ExportToOnnx @
     assign_call ''tokenizer'' [''AutoTokenizer'', ''model_id''] LoadTokenizer @
     call [''model'', ''onnx_path''] SaveModel @
     call [''tokenizer'', ''onnx_path''] SaveTokenizer"

definition nb1_inputs :: "stmt list" where
  "nb1_inputs = [Assign ''context'', Assign ''question'']"

definition nb1_vanilla_pipeline :: "stmt list" where
  "nb1_vanilla_pipeline =
     import_from ''transformers'' [''pipeline''] @
     assign_call ''vanilla_qa'' [''pipeline'', ''model'', ''tokenizer'']
       (CreatePipeline ''question-answering'') @
     [Use ''vanilla_qa''] @
     call [''vanilla_qa'', ''question'', ''context''] (CallPipeline Demo)"

definition nb1_optimize :: "stmt list" where
  "nb1_optimize =
     import_from ''optimum.onnxruntime'' [''ORTOptimizer''] @
     import_from ''optimum.onnxruntime.configuration'' [''OptimizationConfig''] @
     assign_call ''optimizer'' [''ORTOptimizer'', ''model_id'', ''model''] LoadOptimizer @
     assign_call ''optimization_config'' [''OptimizationConfig''] MakeConfig @
     call [''optimizer'', ''onnx_path'', ''onnx_path'', ''optimization_config''] OptimizerExport"

definition nb1_reload :: "stmt list" where
  "nb1_reload =
     import_from ''transformers'' [''pipeline''] @
     assign_call ''model'' [''ORTModelForQuestionAnswering'', ''onnx_path''] LoadOnnxModel @
     assign_call ''optimized_qa'' [''pipeline'', ''model'', ''tokenizer'']
       (CreatePipeline ''question-answering'') @
     call [''optimized_qa'', ''question'', ''context''] (CallPipeline Demo)"

definition nb1_trfs_pipeline :: "stmt list" where
  "nb1_trfs_pipeline =
     import_from ''transformers'' [''pipeline''] @
     assign_call ''trfs_qa'' [''pipeline'', ''model_id''] (CreatePipeline ''question-answering'')"

definition nb1_load_data :: "stmt list" where
  "nb1_load_data =
     import_from ''datasets'' [''load_metric'', ''load_dataset''] @
     assign_call ''metric'' [''load_metric''] LoadMetric @
     assign_call ''metric'' [''load_metric''] LoadMetric @
     assign_call ''eval_dataset'' [''load_dataset''] LoadDataset"

text \<open>
  The evaluation cell. \<open>evaluate\<close> runs inside \<open>Dataset.map\<close>, where it reads its two
  pipelines; the scores are what the two calls of \<open>metric.compute\<close> returned.
\<close>

definition nb1_evaluate :: "float_ops \<Rightarrow> scores \<Rightarrow> scores \<Rightarrow> stmt list" where
  "nb1_evaluate ops default_acc optimized_acc =
     [Assign ''evaluate''] @
     call [''eval_dataset'', ''evaluate''] DatasetMap @
     [Use ''vanilla_qa'', Use ''optimized_qa'', Assign ''result''] @
     assign_call ''default_acc'' [''metric'', ''result'', ''result''] MetricCompute @
     assign_call ''optimized'' [''metric'', ''result'', ''result''] MetricCompute @
     [Use ''default_acc'', Use ''optimized'',
      Check (\<lambda>_. snd (eval_print_nb1 ops default_acc optimized_acc))]"

definition nb1_benchmark :: "stmt list" where
  "nb1_benchmark =
     import_from ''time'' [''perf_counter''] @
     import_from ''numpy'' [''np''] @
     [Assign ''context'', Assign ''question'', Assign ''measure_latency''] @
     measure_latency_stmts ''vanilla_model'' ''vanilla_qa'' [''question'', ''context''] @
     measure_latency_stmts ''optimized_model'' ''optimized_qa'' [''question'', ''context''] @
     [Use ''vanilla_model'', Use ''optimized_model'', Use ''vanilla_model'', Use ''optimized_model'']"

definition notebook1 ::
  "float_ops \<Rightarrow> string list \<Rightarrow> string \<Rightarrow> string \<Rightarrow> scores \<Rightarrow> scores \<Rightarrow> stmt list" where
  "notebook1 ops available_providers device version default_acc optimized_acc =
     nb1_install @ nb1_setup available_providers device version @ export_cell @ nb1_inputs @
     nb1_vanilla_pipeline @ nb1_optimize @ nb1_reload @ nb1_trfs_pipeline @ nb1_load_data @
     nb1_evaluate ops default_acc optimized_acc @ nb1_benchmark"

subsection \<open>Second notebook\<close>

text \<open>
  The export cell is the one of the first notebook with another \<open>model_id\<close>. The cells
  read \<open>text\<close>, \<open>task\<close>, \<open>optimum_qa\<close>, \<open>opt_optimum_qa\<close>, \<open>quantized\<close>, \<open>results\<close> and
  \<open>clx\<close>, which no cell binds. \<open>quantized_scores\<close> and \<open>results_scores\<close> are the values
  of \<open>quantized\<close> and \<open>results\<close> if the kernel has them bound.
\<close>

definition nb2_install :: "stmt list" where
  "nb2_install = [Lib PipInstall]"

definition nb2_inputs :: "stmt list" where
  "nb2_inputs =
     [Assign ''context'', Assign ''question''] @
     assign_call ''inputs'' [''tokenizer'', ''question'', ''text''] Tokenize"

definition nb2_vanilla_pipeline :: "stmt list" where
  "nb2_vanilla_pipeline =
     import_from ''transformers'' [''pipeline''] @
     assign_call ''vanilla_qa'' [''pipeline'', ''model'', ''tokenizer'']
       (CreatePipeline ''question-answering'') @
     call [''vanilla_qa'', ''question'', ''context''] (CallPipeline Demo)"

definition nb2_optimize :: "stmt list" where
  "nb2_optimize =
     import_from ''optimum.onnxruntime'' [''ORTOptimizer''] @
     import_from ''optimum.onnxruntime.configuration'' [''OptimizationConfig''] @
     assign_call ''optimizer'' [''ORTOptimizer'', ''model_id'', ''task''] LoadOptimizer @
     assign_call ''optimization_config'' [''OptimizationConfig''] MakeConfig @
     call [''optimizer'', ''onnx_path'', ''onnx_path'', ''optimization_config''] OptimizerExport"

definition nb2_reload :: "stmt list" where
  "nb2_reload =
     import_from ''transformers'' [''pipeline''] @
     assign_call ''model'' [''ORTModelForQuestionAnswering'', ''model_id''] LoadOnnxModel @
     assign_call ''optimized_qa'' [''pipeline'', ''model'', ''tokenizer'']
       (CreatePipeline ''question-answering'') @
     call [''optimized_qa'', ''question'', ''context''] (CallPipeline Demo)"

definition nb2_quantize :: "stmt list" where
  "nb2_quantize =
     import_from ''optimum.onnxruntime'' [''ORTQuantizer''] @
     import_from ''optimum.onnxruntime.configuration'' [''AutoQuantizationConfig''] @
     assign_call ''dynamic_quantizer'' [''ORTQuantizer'', ''model_id'', ''model''] LoadQuantizer @
     assign_call ''dqconfig'' [''AutoQuantizationConfig''] MakeConfig @
     assign_call ''model_quantized_path''
       [''dynamic_quantizer'', ''onnx_path'', ''onnx_path'', ''dqconfig''] QuantizerExport"

text \<open>
  \<^verbatim>\<open>
  size = os.path.getsize(onnx_path / "model-optimized.onnx")/(1024*1024)
  quantized_model = os.path.getsize(onnx_path / "model-quantized.onnx")/(1024*1024)
  \<close>
  with \<open>onnx_path = Path("onnx")\<close>.
\<close>

definition nb2_sizes :: "stmt list" where
  "nb2_sizes =
     import_from ''os'' [''os''] @
     [Use ''os'', Use ''onnx_path'', GetSize ''onnx/model-optimized.onnx'', Assign ''size'',
      Use ''os'', Use ''onnx_path'', GetSize ''onnx/model-quantized.onnx'', Assign ''quantized_model'',
      Use ''size'', Use ''quantized_model'']"

definition nb2_reload_again :: "stmt list" where
  "nb2_reload_again =
     import_from ''optimum.onnxruntime'' [''ORTModelForSequenceClassification''] @
     import_from ''transformers'' [''pipeline'', ''AutoTokenizer''] @
     assign_call ''model'' [''ORTModelForQuestionAnswering'', ''model_id''] LoadOnnxModel @
     assign_call ''tokenizer'' [''AutoTokenizer'', ''onnx_path''] LoadTokenizer @
     assign_call ''optimized_qa'' [''pipeline'', ''model'', ''tokenizer'']
       (CreatePipeline ''question-answering'') @
     call [''optimized_qa'', ''question'', ''context''] (CallPipeline Demo)"

definition nb2_load_data :: "stmt list" where
  "nb2_load_data =
     import_from ''datasets'' [''load_metric'', ''load_dataset''] @
     assign_call ''metric'' [''load_metric''] LoadMetric @
     assign_call ''eval_dataset'' [''load_dataset''] LoadDataset @
     assign_call ''eval_dataset'' [''eval_dataset''] DatasetSelect"

definition nb2_evaluate :: "stmt list" where
  "nb2_evaluate =
     [Assign ''evaluate''] @
     call [''eval_dataset'', ''evaluate''] DatasetMap @
     [Use ''optimum_qa'', Use ''opt_optimum_qa'', Assign ''result'']"

definition nb2_metrics ::
  "float_ops \<Rightarrow> scores \<Rightarrow> scores \<Rightarrow> scores \<Rightarrow> scores \<Rightarrow> stmt list" where
  "nb2_metrics ops default_acc optimized_acc quantized_scores results_scores =
     assign_call ''default_acc'' [''metric'', ''result'', ''result''] MetricCompute @
     assign_call ''optimized'' [''metric'', ''result'', ''result''] MetricCompute @
     [Use ''default_acc'', Use ''optimized'',
      Check (\<lambda>bound. snd (eval_print_nb2 ops default_acc optimized_acc
                (if ''quantized'' \<in> bound then Some quantized_scores else None)
                (if ''results'' \<in> bound then Some results_scores else None)))]"

definition nb2_benchmark :: "stmt list" where
  "nb2_benchmark =
     import_from ''time'' [''perf_counter''] @
     import_from ''numpy'' [''np''] @
     [Assign ''payload''] @
     call [''tokenizer'', ''payload''] Tokenize @
     [Assign ''measure_latency''] @
     assign_call ''vanilla_clx'' [''pipeline'', ''model_id''] (CreatePipeline ''text-classification'') @
     measure_latency_stmts ''vanilla_model'' ''vanilla_clx'' [''payload''] @
     measure_latency_stmts ''quantized_model'' ''clx'' [''payload''] @
     [Use ''vanilla_model'', Use ''quantized_model'', Use ''vanilla_model'', Use ''quantized_model'']"

definition notebook2 ::
  "float_ops \<Rightarrow> scores \<Rightarrow> scores \<Rightarrow> scores \<Rightarrow> scores \<Rightarrow> stmt list" where
  "notebook2 ops default_acc optimized_acc quantized_scores results_scores =
     nb2_install @ export_cell @ nb2_inputs @ nb2_vanilla_pipeline @ nb2_optimize @ nb2_reload @
     nb2_quantize @ nb2_sizes @ nb2_reload_again @ nb2_load_data @ nb2_evaluate @
     nb2_metrics ops default_acc optimized_acc quantized_scores results_scores @ nb2_benchmark"

subsection \<open>Steps, calls and files\<close>

text \<open>
  The library calls a list of statements makes when nothing raises, and the steps these
  calls stand for: the export to ONNX, \<open>optimizer.export\<close>, the reload of the optimized
  model, \<open>dynamic_quantizer.export\<close>, the map of \<open>evaluate\<close> over the dataset, and the
  calls \<open>measure_latency\<close> makes. A run of equal steps counts once.
\<close>

fun calls_of :: "stmt list \<Rightarrow> lib_call list" where
  "calls_of [] = []"
| "calls_of (Lib c # ss) = c # calls_of ss"
| "calls_of (s # ss) = calls_of ss"

datatype step = Export | Optimize | Reload | Quantize | Evaluate | Benchmark

fun step_of :: "lib_call \<Rightarrow> step option" where
  "step_of ExportToOnnx = Some Export"
| "step_of OptimizerExport = Some Optimize"
| "step_of LoadOnnxModel = Some Reload"
| "step_of QuantizerExport = Some Quantize"
| "step_of DatasetMap = Some Evaluate"
| "step_of (CallPipeline Bench) = Some Benchmark"
| "step_of c = None"

definition steps_of :: "lib_call list \<Rightarrow> step list" where
  "steps_of cs = remdups_adj (List.map_filter step_of cs)"

text \<open>
  The files after the library calls \<open>cs\<close>, made as the calls number \<open>i\<close>, \<open>i + 1\<close>, ...,
  have each done to the files what the library does.
\<close>

fun replay :: "ext \<Rightarrow> nat \<Rightarrow> lib_call list \<Rightarrow> files \<Rightarrow> files" where
  "replay ext i [] fs = fs"
| "replay ext i (c # cs) fs = replay ext (Suc i) cs (snd (ext i c fs))"

text \<open>The statements by which the notebook's own code touches the files.\<close>

fun writes_files :: "stmt \<Rightarrow> bool" where
  "writes_files (WriteFile path n) = True"
| "writes_files (RemoveFile path) = True"
| "writes_files s = False"

fun touches_files :: "stmt \<Rightarrow> bool" where
  "touches_files (GetSize path) = True"
| "touches_files s = writes_files s"

text \<open>
  Library calls that never raise and leave the files as they are, except that the
  exports and saves write their files: an instance of \<open>ext\<close> for concrete runs.
\<close>

definition sample_ext :: ext where
  "sample_ext i c fs =
     (None,
      if c = SaveModel then fs(''onnx/model.onnx'' \<mapsto> 260000000)
      else if c = OptimizerExport then fs(''onnx/model-optimized.onnx'' \<mapsto> 130000000)
      else if c = QuantizerExport then fs(''onnx/model-quantized.onnx'' \<mapsto> 66000000)
      else fs)"

section \<open>Properties of the setup cell\<close>

lemma str_lt_lexord:
  "str_lt a b \<longleftrightarrow> (a, b) \<in> lexord {(x, y). (of_char x :: nat) < of_char y}"
  by (induction a b rule: str_lt.induct) auto

text \<open>
  C5. The setup cell raises an AssertionError exactly when the CUDA provider is not
  among the available providers, or the device is not the string "GPU", or the version
  string is not greater than "1.11.1" in the lexicographic order of strings. The
  comparison is one of strings and not of version numbers: "1.9.0" passes the check
  although 1.9.0 is the older version, and "1.100.0" fails it although it is newer.
\<close>

theorem setup_cell_assertion_iff:
  "((\<exists>m. setup_cell ps d v = Inl (AssertionError m)) \<longleftrightarrow>
      (''CUDAExecutionProvider'' \<notin> set ps \<or> d \<noteq> ''GPU'' \<or>
       (''1.11.1'', v) \<notin> lexord {(x, y). (of_char x :: nat) < of_char y}))
   \<and> (setup_cell ps d v = Inr () \<or> (\<exists>m. setup_cell ps d v = Inl (AssertionError m)))
   \<and> str_gt ''1.9.0'' ''1.11.1'' \<and> \<not> numeric_version_gt ''1.9.0'' ''1.11.1''
   \<and> \<not> str_gt ''1.100.0'' ''1.11.1'' \<and> numeric_version_gt ''1.100.0'' ''1.11.1''"
proof -
  have a: "str_gt ''1.9.0'' ''1.11.1''" "\<not> str_gt ''1.100.0'' ''1.11.1''"
    by (simp_all add: str_gt_def)
  have b: "\<not> numeric_version_gt ''1.9.0'' ''1.11.1''" "numeric_version_gt ''1.100.0'' ''1.11.1''"
    by (simp_all add: numeric_version_gt_def)
  have c: "str_gt v ''1.11.1'' \<longleftrightarrow> (''1.11.1'', v) \<in> lexord {(x, y). (of_char x :: nat) < of_char y}"
    unfolding str_gt_def by (rule str_lt_lexord)
  show ?thesis
    using a b by (auto simp: setup_cell_def c)
qed

theorem setup_cell_assertion_iff_witness:
  "(\<exists>m. setup_cell [''CPUExecutionProvider''] ''GPU'' ''1.12.0'' = Inl (AssertionError m))
   \<and> (\<exists>m. setup_cell [''CUDAExecutionProvider'', ''CPUExecutionProvider''] ''GPU'' ''1.100.0''
          = Inl (AssertionError m))
   \<and> setup_cell [''CUDAExecutionProvider'', ''CPUExecutionProvider''] ''GPU'' ''1.12.0'' = Inr ()"
proof -
  have "(\<exists>m. setup_cell [''CPUExecutionProvider''] ''GPU'' ''1.12.0'' = Inl (AssertionError m))"
    using setup_cell_assertion_iff [of "[''CPUExecutionProvider'']" "''GPU''" "''1.12.0''"]
    by simp
  moreover have "(\<exists>m. setup_cell [''CUDAExecutionProvider'', ''CPUExecutionProvider''] ''GPU'' ''1.100.0''
          = Inl (AssertionError m))"
    using setup_cell_assertion_iff
      [of "[''CUDAExecutionProvider'', ''CPUExecutionProvider'']" "''GPU''" "''1.100.0''"]
    by (simp add: str_lt_lexord [symmetric])
  moreover have "setup_cell [''CUDAExecutionProvider'', ''CPUExecutionProvider''] ''GPU'' ''1.12.0'' = Inr ()"
    using setup_cell_assertion_iff
      [of "[''CUDAExecutionProvider'', ''CPUExecutionProvider'']" "''GPU''" "''1.12.0''"]
    by (auto simp: str_lt_lexord [symmetric])
  ultimately show ?thesis by blast
qed

section \<open>Properties of measure_latency\<close>

lemma warm_up_ok:
  "(\<forall>k<n. \<exists>r. pipe (n_calls b + k) req = Inr r) \<Longrightarrow>
   warm_up n pipe req b =
     Inr (b\<lparr>n_calls := n_calls b + n,
            events := events b @ map (\<lambda>k. PipeCall k req) [n_calls b ..< n_calls b + n]\<rparr>)"
proof (induction n arbitrary: b)
  case 0
  then show ?case by simp
next
  case (Suc n)
  from Suc.prems obtain r where r: "pipe (n_calls b) req = Inr r"
    by (metis add.right_neutral zero_less_Suc)
  define b' where "b' = b\<lparr>n_calls := Suc (n_calls b), events := events b @ [PipeCall (n_calls b) req]\<rparr>"
  have "\<forall>k<n. \<exists>r. pipe (n_calls b' + k) req = Inr r"
    using Suc.prems by (auto simp: b'_def dest: spec [where x = "Suc k" for k])
  from Suc.IH [OF this] show ?case
    using r by (simp add: call_pipe_def b'_def upt_conv_Cons)
qed

lemma warm_up_Inr_D:
  "warm_up n pipe req b = Inr b' \<Longrightarrow> k < n \<Longrightarrow> \<exists>r. pipe (n_calls b + k) req = Inr r"
proof (induction n arbitrary: b k)
  case 0
  then show ?case by simp
next
  case (Suc n)
  then show ?case
    by (cases k) (fastforce simp: call_pipe_def split: sum.splits)+
qed

lemma timed_run_ok:
  "(\<forall>k<n. \<exists>r. pipe (n_calls b + k) req = Inr r) \<Longrightarrow>
   timed_run n pipe clock req b =
     Inr (b\<lparr>latencies := latencies b @
                 map (\<lambda>i. clock (n_reads b + 2 * i + 1) - clock (n_reads b + 2 * i)) [0..<n],
            n_calls := n_calls b + n,
            n_reads := n_reads b + 2 * n,
            events := events b @
                 concat (map (\<lambda>i. [PerfCounter (n_reads b + 2 * i),
                                     PipeCall (n_calls b + i) req,
                                     PerfCounter (n_reads b + 2 * i + 1)]) [0..<n])\<rparr>)"
proof (induction n arbitrary: b)
  case 0
  then show ?case by simp
next
  case (Suc n)
  from Suc.prems obtain r where r: "pipe (n_calls b) req = Inr r"
    by (metis add.right_neutral zero_less_Suc)
  define b' where "b' = b\<lparr>n_calls := Suc (n_calls b), n_reads := Suc (Suc (n_reads b)),
      events := events b @ [PerfCounter (n_reads b), PipeCall (n_calls b) req, PerfCounter (Suc (n_reads b))],
      latencies := latencies b @ [clock (Suc (n_reads b)) - clock (n_reads b)]\<rparr>"
  have "\<forall>k<n. \<exists>r. pipe (n_calls b' + k) req = Inr r"
    using Suc.prems by (auto simp: b'_def dest: spec [where x = "Suc k" for k])
  from Suc.IH [OF this] show ?case
    using r by (simp add: call_pipe_def perf_counter_def b'_def map_upt_Suc del: upt_Suc)
qed

lemma timed_run_Inr_D:
  "timed_run n pipe clock req b = Inr b' \<Longrightarrow> k < n \<Longrightarrow> \<exists>r. pipe (n_calls b + k) req = Inr r"
proof (induction n arbitrary: b k)
  case 0
  then show ?case by simp
next
  case (Suc n)
  then show ?case
    by (cases k) (fastforce simp: call_pipe_def perf_counter_def split: sum.splits)+
qed


lemma run_loops_ok:
  assumes "\<forall>k<310. \<exists>r. pipe k req = Inr r"
  shows "run_loops pipe clock req =
     Inr \<lparr>latencies = map (\<lambda>i. clock (2 * i + 1) - clock (2 * i)) [0..<300],
          n_calls = 310, n_reads = 600,
          events = map (\<lambda>k. PipeCall k req) [0..<10] @
                   concat (map (\<lambda>i. [PerfCounter (2 * i), PipeCall (10 + i) req,
                                       PerfCounter (2 * i + 1)]) [0..<300])\<rparr>"
proof -
  define b where "b = bench_init\<lparr>n_calls := n_calls bench_init + 10,
      events := events bench_init @ map (\<lambda>k. PipeCall k req) [n_calls bench_init ..< n_calls bench_init + 10]\<rparr>"
  have w: "warm_up 10 pipe req bench_init = Inr b"
    unfolding b_def using assms by (intro warm_up_ok) (simp add: bench_init_def)
  have nb: "n_calls b = 10" "n_reads b = 0" "latencies b = []"
    "events b = map (\<lambda>k. PipeCall k req) [0..<10]"
    by (simp_all add: b_def bench_init_def)
  have "\<forall>k<300. \<exists>r. pipe (n_calls b + k) req = Inr r"
    using assms by (simp add: nb)
  from timed_run_ok [of 300 pipe b req clock, OF this] show ?thesis
    unfolding run_loops_def w by (simp add: nb b_def bench_init_def)
qed

lemma run_loops_Inr_D:
  assumes "run_loops pipe clock req = Inr b" "k < 310"
  shows "\<exists>r. pipe k req = Inr r"
proof -
  from assms(1) obtain b0 where w: "warm_up 10 pipe req bench_init = Inr b0"
    and t: "timed_run 300 pipe clock req b0 = Inr b"
    by (auto simp: run_loops_def split: sum.splits)
  have "\<forall>k<10. \<exists>r. pipe k req = Inr r"
    using warm_up_Inr_D [OF w] by (simp add: bench_init_def)
  then have "b0 = bench_init\<lparr>n_calls := n_calls bench_init + 10,
      events := events bench_init @ map (\<lambda>k. PipeCall k req) [n_calls bench_init ..< n_calls bench_init + 10]\<rparr>"
    using warm_up_ok [of 10 pipe bench_init req] w by (simp add: bench_init_def)
  then have n: "n_calls b0 = 10" by (simp add: bench_init_def)
  show ?thesis
  proof (cases "k < 10")
    case True
    then show ?thesis using warm_up_Inr_D [OF w] by (simp add: bench_init_def)
  next
    case False
    then have "k - 10 < 300" using assms(2) by simp
    from timed_run_Inr_D [OF t this] False show ?thesis by (simp add: n)
  qed
qed

lemma np_percentile_300:
  "length a = 300 \<Longrightarrow>
   np_percentile a 95 = sort a ! 284 + (sort a ! 285 - sort a ! 284) * (5 / 100)"
  by (simp add: np_percentile_def Let_def)

lemma filter_sort_length: "length (filter P (sort xs)) = length (filter P (xs :: real list))"
  by (metis mset_filter mset_sort size_mset)

lemma count_le_sorted:
  assumes "sorted (s :: real list)" "k < length s" "s ! k \<le> v"
  shows "Suc k \<le> length (filter (\<lambda>x. x \<le> v) s)"
proof -
  have "\<forall>x \<in> set (take (Suc k) s). x \<le> v"
  proof
    fix x assume "x \<in> set (take (Suc k) s)"
    then obtain i where "i < Suc k" "x = s ! i"
      using assms(2) by (auto simp: in_set_conv_nth)
    then have "x \<le> s ! k" using assms(1,2) by (simp add: sorted_nth_mono)
    then show "x \<le> v" using assms(3) by simp
  qed
  then have "filter (\<lambda>x. x \<le> v) (take (Suc k) s) = take (Suc k) s"
    by (simp add: filter_id_conv)
  moreover have "filter (\<lambda>x. x \<le> v) s =
      filter (\<lambda>x. x \<le> v) (take (Suc k) s) @ filter (\<lambda>x. x \<le> v) (drop (Suc k) s)"
    by (metis append_take_drop_id filter_append)
  ultimately show ?thesis using assms(2) by simp
qed

lemma count_ge_sorted:
  assumes "sorted (s :: real list)" "k < length s" "v \<le> s ! k"
  shows "length s - k \<le> length (filter (\<lambda>x. v \<le> x) s)"
proof -
  have "\<forall>x \<in> set (drop k s). v \<le> x"
  proof
    fix x assume "x \<in> set (drop k s)"
    then obtain i where "i < length s - k" "x = s ! (k + i)"
      by (auto simp: in_set_conv_nth)
    then have "s ! k \<le> x" using assms(1,2) by (simp add: sorted_nth_mono)
    then show "v \<le> x" using assms(3) by simp
  qed
  then have "filter (\<lambda>x. v \<le> x) (drop k s) = drop k s"
    by (simp add: filter_id_conv)
  moreover have "filter (\<lambda>x. v \<le> x) s =
      filter (\<lambda>x. v \<le> x) (take k s) @ filter (\<lambda>x. v \<le> x) (drop k s)"
    by (metis append_take_drop_id filter_append)
  ultimately show ?thesis by simp
qed


text \<open>
  C3. The two loops of \<open>measure_latency\<close> return exactly when none of the 310 calls to
  the pipeline raises, and then they have recorded exactly 300 latencies. The \<open>i\<close>-th one
  is the difference of the readings \<open>2 i + 1\<close> and \<open>2 i\<close> of \<open>perf_counter\<close>, and the
  order of events shows that these two readings are taken immediately before and
  immediately after one call, the call number \<open>10 + i\<close>. The ten calls before them are
  made with no reading of the clock and add nothing to the list. This holds for every
  pipeline, every clock and the request of either notebook.
\<close>

theorem run_loops_fixed_sample:
  "((\<exists>b. run_loops pipe clock req = Inr b) \<longleftrightarrow> (\<forall>k<310. \<exists>r. pipe k req = Inr r)) \<and>
   (\<forall>b. run_loops pipe clock req = Inr b \<longrightarrow>
      length (latencies b) = 300 \<and>
      (\<forall>i<300. latencies b ! i = clock (2 * i + 1) - clock (2 * i)) \<and>
      events b = map (\<lambda>k. PipeCall k req) [0..<10] @
                 concat (map (\<lambda>i. [PerfCounter (2 * i), PipeCall (10 + i) req,
                                     PerfCounter (2 * i + 1)]) [0..<300]) \<and>
      n_calls b = 310 \<and> n_reads b = 600)"
proof (rule conjI)
  show "(\<exists>b. run_loops pipe clock req = Inr b) \<longleftrightarrow> (\<forall>k<310. \<exists>r. pipe k req = Inr r)"
    using run_loops_ok [of pipe req clock] run_loops_Inr_D [of pipe clock req] by blast
next
  have "length (latencies b) = 300 \<and>
      (\<forall>i<300. latencies b ! i = clock (2 * i + 1) - clock (2 * i)) \<and>
      events b = map (\<lambda>k. PipeCall k req) [0..<10] @
                 concat (map (\<lambda>i. [PerfCounter (2 * i), PipeCall (10 + i) req,
                                     PerfCounter (2 * i + 1)]) [0..<300]) \<and>
      n_calls b = 310 \<and> n_reads b = 600"
    if b: "run_loops pipe clock req = Inr b" for b
  proof -
    from b have "\<forall>k<310. \<exists>r. pipe k req = Inr r"
      using run_loops_Inr_D [of pipe clock req] by blast
    from run_loops_ok [of pipe req clock, OF this] b
    have eq: "b = \<lparr>latencies = map (\<lambda>i. clock (2 * i + 1) - clock (2 * i)) [0..<300],
          n_calls = 310, n_reads = 600,
          events = map (\<lambda>k. PipeCall k req) [0..<10] @
                   concat (map (\<lambda>i. [PerfCounter (2 * i), PipeCall (10 + i) req,
                                       PerfCounter (2 * i + 1)]) [0..<300])\<rparr>"
      by simp
    show ?thesis by (subst (1 2 3 4 5) eq) (simp del: upt_Suc)
  qed
  then show "\<forall>b. run_loops pipe clock req = Inr b \<longrightarrow>
      length (latencies b) = 300 \<and>
      (\<forall>i<300. latencies b ! i = clock (2 * i + 1) - clock (2 * i)) \<and>
      events b = map (\<lambda>k. PipeCall k req) [0..<10] @
                 concat (map (\<lambda>i. [PerfCounter (2 * i), PipeCall (10 + i) req,
                                     PerfCounter (2 * i + 1)]) [0..<300]) \<and>
      n_calls b = 310 \<and> n_reads b = 600"
    by blast
qed

theorem run_loops_fixed_sample_witness:
  "\<exists>b. run_loops (\<lambda>k req. Inr ()) real (Text ''x'') = Inr b \<and>
       length (latencies b) = 300 \<and> latencies b ! 299 = 1 \<and> n_calls b = 310"
proof -
  have h: "\<forall>k<310. \<exists>r. (\<lambda>k req. Inr ()) k (Text ''x'') = (Inr r :: error + unit)"
    by simp
  note t = run_loops_fixed_sample [of "\<lambda>k req. Inr ()" real "Text ''x''"]
  from t h obtain b where b: "run_loops (\<lambda>k req. Inr ()) real (Text ''x'') = (Inr b :: error + bench)"
    by blast
  with t have "length (latencies b) = 300" "n_calls b = 310"
    "\<forall>i<300. latencies b ! i = real (2 * i + 1) - real (2 * i)"
    by blast+
  then have "length (latencies b) = 300 \<and> latencies b ! 299 = 1 \<and> n_calls b = 310"
    by simp
  with b show ?thesis by blast
qed

text \<open>
  C1. \<open>measure_latency\<close> returns exactly when none of the 310 calls raises. What it
  returns is computed from the list of the 300 timed latencies and nothing else: the
  average in the report is 1000 times their arithmetic mean, the deviation is 1000
  times their population standard deviation, the P95 is 1000 times their 95th
  percentile, and the second component of the pair is that same P95. The percentile is
  the value 5/100 of the way from the 285th to the 286th smallest sample, so at least
  285 of the 300 samples (95 percent) are not above it and at least 15 are not below
  it. The report hands the average and the deviation to the \<open>.2f\<close> format and the P95
  to \<open>str\<close>. The statement is for the request of either notebook.
\<close>

theorem measure_latency_statistics:
  "((\<exists>res. measure_latency_with req pipe clock = Inr res) \<longleftrightarrow>
      (\<forall>k<310. \<exists>r. pipe k req = Inr r)) \<and>
   (\<forall>report p95. measure_latency_with req pipe clock = Inr (report, p95) \<longrightarrow>
     (let samples = map (\<lambda>i. clock (2 * i + 1) - clock (2 * i)) [0..<300];
          mean = sum_list samples / 300;
          std = sqrt (sum_list (map (\<lambda>x. (x - mean)\<^sup>2) samples) / 300);
          ordered = sort samples;
          p = ordered ! 284 + (ordered ! 285 - ordered ! 284) * (5 / 100)
      in report = [Lit ''P95 latency (ms) - '', Repr (1000 * p),
                   Lit ''; Average latency (ms) - '', Fixed 2 (1000 * mean),
                   Lit ('' +'' @ [CHR 0x5C] @ ''- ''), Fixed 2 (1000 * std), Lit '';''] \<and>
         p95 = 1000 * p \<and>
         ordered ! 284 \<le> p \<and> p \<le> ordered ! 285 \<and>
         285 \<le> length (filter (\<lambda>x. x \<le> p) samples) \<and>
         15 \<le> length (filter (\<lambda>x. p \<le> x) samples)))"
proof (intro conjI allI impI)
  show "(\<exists>res. measure_latency_with req pipe clock = Inr res) \<longleftrightarrow>
      (\<forall>k<310. \<exists>r. pipe k req = Inr r)"
  proof
    assume "\<exists>res. measure_latency_with req pipe clock = Inr res"
    then obtain b where "run_loops pipe clock req = Inr b"
      by (auto simp: measure_latency_with_def split: sum.splits)
    then show "\<forall>k<310. \<exists>r. pipe k req = Inr r"
      using run_loops_Inr_D [of pipe clock req] by blast
  next
    assume "\<forall>k<310. \<exists>r. pipe k req = Inr r"
    from run_loops_ok [of pipe req clock, OF this]
    show "\<exists>res. measure_latency_with req pipe clock = Inr res"
      by (simp add: measure_latency_with_def Let_def)
  qed
next
  fix report p95
  assume m: "measure_latency_with req pipe clock = Inr (report, p95)"
  define samples where "samples = map (\<lambda>i. clock (2 * i + 1) - clock (2 * i)) [0..<300]"
  define ordered where "ordered = sort samples"
  define p where "p = ordered ! 284 + (ordered ! 285 - ordered ! 284) * (5 / 100)"
  have len: "length samples = 300" by (simp add: samples_def)
  from m obtain b where b: "run_loops pipe clock req = Inr b"
    by (auto simp: measure_latency_with_def split: sum.splits)
  then have "\<forall>k<310. \<exists>r. pipe k req = Inr r"
    using run_loops_Inr_D [of pipe clock req] by blast
  from run_loops_ok [of pipe req clock, OF this] b have lb: "latencies b = samples"
    by (auto simp: samples_def)
  have pc: "np_percentile samples 95 = p"
    using np_percentile_300 [OF len] by (simp add: p_def ordered_def)
  have mean: "np_mean samples = sum_list samples / 300"
    by (simp add: np_mean_def len)
  have std: "np_std samples = sqrt (sum_list (map (\<lambda>x. (x - sum_list samples / 300)\<^sup>2) samples) / 300)"
    by (simp add: np_std_def mean) (simp add: np_mean_def len)
  have rep: "report = [Lit ''P95 latency (ms) - '', Repr (1000 * p),
                   Lit ''; Average latency (ms) - '', Fixed 2 (1000 * (sum_list samples / 300)),
                   Lit ('' +'' @ [CHR 0x5C] @ ''- ''),
                   Fixed 2 (1000 * sqrt (sum_list (map (\<lambda>x. (x - sum_list samples / 300)\<^sup>2) samples) / 300)),
                   Lit '';'']" and p95: "p95 = 1000 * p"
    using m unfolding measure_latency_with_def b by (auto simp: Let_def lb pc mean std)
  have so: "sorted ordered" "length ordered = 300"
    by (simp_all add: ordered_def len)
  have le: "ordered ! 284 \<le> ordered ! 285"
    using so by (simp add: sorted_nth_mono)
  have lo: "ordered ! 284 \<le> p" using le by (simp add: p_def)
  have hi: "p \<le> ordered ! 285" using le unfolding p_def by argo
  have c1: "285 \<le> length (filter (\<lambda>x. x \<le> p) samples)"
    using count_le_sorted [OF so(1) _ lo] so(2)
    by (simp add: ordered_def filter_sort_length)
  have c2: "15 \<le> length (filter (\<lambda>x. p \<le> x) samples)"
    using count_ge_sorted [OF so(1) _ hi] so(2)
    by (simp add: ordered_def filter_sort_length)
  show "let samples = map (\<lambda>i. clock (2 * i + 1) - clock (2 * i)) [0..<300];
          mean = sum_list samples / 300;
          std = sqrt (sum_list (map (\<lambda>x. (x - mean)\<^sup>2) samples) / 300);
          ordered = sort samples;
          p = ordered ! 284 + (ordered ! 285 - ordered ! 284) * (5 / 100)
      in report = [Lit ''P95 latency (ms) - '', Repr (1000 * p),
                   Lit ''; Average latency (ms) - '', Fixed 2 (1000 * mean),
                   Lit ('' +'' @ [CHR 0x5C] @ ''- ''), Fixed 2 (1000 * std), Lit '';''] \<and>
         p95 = 1000 * p \<and>
         ordered ! 284 \<le> p \<and> p \<le> ordered ! 285 \<and>
         285 \<le> length (filter (\<lambda>x. x \<le> p) samples) \<and>
         15 \<le> length (filter (\<lambda>x. p \<le> x) samples)"
    unfolding Let_def samples_def [symmetric] ordered_def [symmetric] p_def [symmetric]
    using rep p95 lo hi c1 c2 by blast
qed


theorem measure_latency_statistics_witness:
  "\<exists>report. measure_latency (\<lambda>k req. Inr ()) real = Inr (report, 1000)"
proof -
  define samples :: "real list"
    where "samples = map (\<lambda>i. real (2 * i + 1) - real (2 * i)) [0..<300]"
  note t = measure_latency_statistics
    [of "QA bench_question bench_context" "\<lambda>k req. Inr ()" real]
  have "\<forall>k<310. \<exists>r. (\<lambda>k req. Inr ()) k (QA bench_question bench_context) = (Inr r :: error + unit)"
    by simp
  with t obtain report p95
    where r: "measure_latency_with (QA bench_question bench_context) (\<lambda>k req. Inr ()) real
                = (Inr (report, p95) :: error + piece list \<times> real)"
    by fast
  with t have p: "p95 = 1000 * (sort samples ! 284 + (sort samples ! 285 - sort samples ! 284) * (5 / 100))"
    and b: "sort samples ! 284 \<le> sort samples ! 284 + (sort samples ! 285 - sort samples ! 284) * (5 / 100)"
           "sort samples ! 284 + (sort samples ! 285 - sort samples ! 284) * (5 / 100) \<le> sort samples ! 285"
    unfolding samples_def Let_def by blast+
  have one: "\<forall>x \<in> set samples. x = 1"
    by (auto simp: samples_def)
  have "length (sort samples) = 300" by (simp add: samples_def)
  then have "sort samples ! 284 \<in> set (sort samples)" "sort samples ! 285 \<in> set (sort samples)"
    by (simp_all del: set_sort)
  with one have "sort samples ! 284 = 1" "sort samples ! 285 = 1"
    by simp_all
  with p have "p95 = 1000" by simp
  with r show ?thesis by (auto simp: measure_latency_def)
qed

section \<open>Properties of the printed accuracy figure\<close>

lemma retention_line_nb1_figure:
  "retention_line_nb1 ops default_acc optimized_acc = Inr line \<longleftrightarrow>
     (\<exists>opt_f1 van_f1. optimized_acc ''f1'' = Some opt_f1 \<and> default_acc ''f1'' = Some van_f1 \<and>
        van_f1 \<noteq> 0 \<and>
        line = [Lit ''The optimized model achieves '',
                Fixed 2 (fmul ops (fround ops (fdiv ops opt_f1 van_f1) 2) 100),
                Lit ''% accuracy of the fp32 model''])"
  by (auto simp: retention_line_nb1_def lookup_def split: option.splits)


section \<open>Properties of the dataset evaluation\<close>

lemma dataset_map_Inr:
  "dataset_map f i xs = Inr rows \<Longrightarrow>
   map fst rows = xs \<and> (\<forall>j<length xs. f (i + j) (xs ! j) = Inr (snd (rows ! j)))"
proof (induction xs arbitrary: i rows)
  case Nil
  then show ?case by simp
next
  case (Cons x xs)
  from Cons.prems obtain y rest where y: "f i x = Inr y"
    and r: "dataset_map f (Suc i) xs = Inr rest" and rows: "rows = (x, y) # rest"
    by (auto split: sum.splits)
  from Cons.IH [OF r] have ih: "map fst rest = xs"
    "\<forall>j<length xs. f (Suc i + j) (xs ! j) = Inr (snd (rest ! j))"
    by simp_all
  show ?case
  proof (intro conjI allI impI)
    show "map fst rows = x # xs" using ih(1) rows by simp
  next
    fix j assume "j < length (x # xs)"
    then show "f (i + j) ((x # xs) ! j) = Inr (snd (rows ! j))"
      using y ih(2) rows by (cases j) auto
  qed
qed

lemma dataset_map_ok:
  "(\<forall>j<length xs. \<exists>y. f (i + j) (xs ! j) = Inr y) \<Longrightarrow> \<exists>rows. dataset_map f i xs = Inr rows"
proof (induction xs arbitrary: i)
  case Nil
  then show ?case by simp
next
  case (Cons x xs)
  from Cons.prems obtain y where y: "f i x = Inr y" by fastforce
  have "\<forall>j<length xs. \<exists>y. f (Suc i + j) (xs ! j) = Inr y"
    using Cons.prems by (auto dest: spec [where x = "Suc j" for j])
  from Cons.IH [OF this] obtain rest where "dataset_map f (Suc i) xs = Inr rest" by blast
  with y show ?case by simp
qed

lemma evaluation_step_Inr:
  assumes "evaluation_step f metric ds = Inr (result, d, oa)"
  shows "map fst result = ds \<and> (\<forall>j<length ds. f j (ds ! j) = Inr (snd (result ! j))) \<and>
         metric (column default result) (column reference result) = Inr d \<and>
         metric (column optimized result) (column reference result) = Inr oa"
proof -
  from assms have m: "dataset_map f 0 ds = Inr result"
    and d: "metric (column default result) (column reference result) = Inr d"
    and oa: "metric (column optimized result) (column reference result) = Inr oa"
    by (auto simp: evaluation_step_def split: sum.splits)
  from dataset_map_Inr [OF m] d oa show ?thesis by simp
qed

lemma dataset_select_take:
  "dataset_select ds [0..<n] = (if n \<le> length ds then Inr (take n ds) else Inl IndexError)"
proof (cases "n \<le> length ds")
  case True
  then have "map (\<lambda>i. ds ! i) [0..<n] = take n ds"
    by (metis map_nth take_map take_upt add_0 min.absorb2 length_upt diff_zero)
  then show ?thesis using True by (auto simp: dataset_select_def list_all_iff)
next
  case False
  then show ?thesis
    by (auto simp: dataset_select_def list_all_iff intro: bexI [where x = "length ds"])
qed

lemma evaluate_Inr_iff:
  "(\<exists>row. evaluate vanilla_qa optimized_qa example = Inr row) \<longleftrightarrow>
     (\<exists>r. vanilla_qa (QA (ex_question example) (ex_context example)) = Inr r) \<and>
     (\<exists>r. optimized_qa (QA (ex_question example) (ex_context example)) = Inr r)"
  by (auto simp: evaluate_def split: sum.splits)

text \<open>
  C9. Whenever \<open>evaluate\<close> returns a record for an example, in either notebook, the
  \<open>reference\<close>, \<open>default\<close> and \<open>optimized\<close> entries all carry the id of the example, and
  the \<open>reference\<close> entry carries the example's answers as they are. In the first notebook
  it returns exactly when both pipeline calls return.
\<close>

theorem evaluate_id_consistent:
  "(evaluate vanilla_qa optimized_qa example = Inr row \<longrightarrow>
      ref_id (reference row) = ex_id example \<and>
      pred_id (default row) = ex_id example \<and>
      pred_id (optimized row) = ex_id example \<and>
      ref_answers (reference row) = ex_answers example) \<and>
   (evaluate_nb2 optimum_qa opt_optimum_qa example = Inr row2 \<longrightarrow>
      ref_id (reference row2) = ex_id example \<and>
      pred_id (default row2) = ex_id example \<and>
      pred_id (optimized row2) = ex_id example \<and>
      ref_answers (reference row2) = ex_answers example) \<and>
   ((\<exists>row. evaluate vanilla_qa optimized_qa example = Inr row) \<longleftrightarrow>
      (\<exists>r. vanilla_qa (QA (ex_question example) (ex_context example)) = Inr r) \<and>
      (\<exists>r. optimized_qa (QA (ex_question example) (ex_context example)) = Inr r))"
proof (intro conjI)
  show "evaluate vanilla_qa optimized_qa example = Inr row \<longrightarrow>
      ref_id (reference row) = ex_id example \<and>
      pred_id (default row) = ex_id example \<and>
      pred_id (optimized row) = ex_id example \<and>
      ref_answers (reference row) = ex_answers example"
    by (auto simp: evaluate_def split: sum.splits)
  show "evaluate_nb2 optimum_qa opt_optimum_qa example = Inr row2 \<longrightarrow>
      ref_id (reference row2) = ex_id example \<and>
      pred_id (default row2) = ex_id example \<and>
      pred_id (optimized row2) = ex_id example \<and>
      ref_answers (reference row2) = ex_answers example"
    by (auto simp: evaluate_nb2_def split: sum.splits option.splits)
  show "(\<exists>row. evaluate vanilla_qa optimized_qa example = Inr row) \<longleftrightarrow>
      (\<exists>r. vanilla_qa (QA (ex_question example) (ex_context example)) = Inr r) \<and>
      (\<exists>r. optimized_qa (QA (ex_question example) (ex_context example)) = Inr r)"
    by (rule evaluate_Inr_iff)
qed

theorem evaluate_id_consistent_witness:
  "\<exists>row row2.
     evaluate (sample_qa 0) (sample_qa 0) sample_example = Inr row \<and>
     ref_id (reference row) = ''56be4db0acb8001400a502ec'' \<and>
     pred_id (default row) = ''56be4db0acb8001400a502ec'' \<and>
     pred_id (optimized row) = ''56be4db0acb8001400a502ec'' \<and>
     ref_answers (reference row) = ex_answers sample_example \<and>
     evaluate_nb2 (Some (sample_qa 0)) (Some (sample_qa 0)) sample_example = Inr row2 \<and>
     pred_id (optimized row2) = ''56be4db0acb8001400a502ec''"
proof -
  obtain row2 where r2: "evaluate_nb2 (Some (sample_qa 0)) (Some (sample_qa 0)) sample_example = Inr row2"
    by (simp add: evaluate_nb2_def sample_qa_def)
  have "\<exists>row. evaluate (sample_qa 0) (sample_qa 0) sample_example = Inr row"
    using evaluate_id_consistent [of "sample_qa 0" "sample_qa 0" sample_example]
    by (simp add: sample_qa_def)
  then obtain row where r: "evaluate (sample_qa 0) (sample_qa 0) sample_example = Inr row"
    by blast
  have i: "ex_id sample_example = ''56be4db0acb8001400a502ec''"
    by (simp add: sample_example_def)
  from evaluate_id_consistent
    [of "sample_qa 0" "sample_qa 0" sample_example row "Some (sample_qa 0)" "Some (sample_qa 0)" row2]
    r r2 i
  show ?thesis by auto
qed

lemma evaluation_step_sample_ok:
  assumes "\<forall>j<length ds. \<exists>y. f j (ds ! j) = Inr y"
  shows "\<exists>result d oa. evaluation_step f sample_metric ds = Inr (result, d, oa)"
proof -
  from dataset_map_ok [of ds f 0] assms obtain rows where "dataset_map f 0 ds = Inr rows"
    by auto
  then show ?thesis by (simp add: evaluation_step_def sample_metric_def)
qed

lemma sample_split_props:
  "length (sample_split n) = n"
  "i < n \<Longrightarrow> ex_id (sample_split n ! i) = replicate i CHR ''x''"
  "k \<le> n \<Longrightarrow> take k (sample_split n) = sample_split k"
  by (simp_all add: sample_split_def take_map)

text \<open>
  C4, as amended. The evaluation step maps \<open>evaluate\<close> over every row of
  \<open>eval_dataset\<close>, in order, and each row of the result holds the example together with
  the \<open>reference\<close>, \<open>default\<close> and \<open>optimized\<close> entries that \<open>evaluate\<close> returned for it;
  then \<open>metric.compute\<close> is applied once to the \<open>default\<close> column and once to the
  \<open>optimized\<close> column, each time with the \<open>reference\<close> column. In the first notebook
  \<open>eval_dataset\<close> is the whole validation split; in the second it is the first 1000
  rows of the split, which must have that many.
\<close>

theorem evaluation_maps_eval_dataset:
  "(evaluation_nb1 vanilla_qa optimized_qa metric validation = Inr (result, d, oa) \<longrightarrow>
      map fst result = validation \<and>
      (\<forall>j<length validation.
         evaluate (vanilla_qa j) (optimized_qa j) (validation ! j) = Inr (snd (result ! j))) \<and>
      metric (column default result) (column reference result) = Inr d \<and>
      metric (column optimized result) (column reference result) = Inr oa) \<and>
   (evaluation_nb2 optimum_qa opt_optimum_qa metric2 validation = Inr (result2, d2, oa2) \<longrightarrow>
      1000 \<le> length validation \<and>
      map fst result2 = take 1000 validation \<and>
      (\<forall>j<1000.
         evaluate_nb2 (map_option (\<lambda>p. p j) optimum_qa) (map_option (\<lambda>p. p j) opt_optimum_qa)
           (validation ! j) = Inr (snd (result2 ! j))) \<and>
      metric2 (column default result2) (column reference result2) = Inr d2 \<and>
      metric2 (column optimized result2) (column reference result2) = Inr oa2)"
proof (intro conjI impI)
  assume "evaluation_nb1 vanilla_qa optimized_qa metric validation = Inr (result, d, oa)"
  then have "evaluation_step (\<lambda>i. evaluate (vanilla_qa i) (optimized_qa i)) metric validation
      = Inr (result, d, oa)"
    by (simp add: evaluation_nb1_def)
  from evaluation_step_Inr [OF this]
  show "map fst result = validation"
    and "\<forall>j<length validation.
         evaluate (vanilla_qa j) (optimized_qa j) (validation ! j) = Inr (snd (result ! j))"
    and "metric (column default result) (column reference result) = Inr d"
    and "metric (column optimized result) (column reference result) = Inr oa"
    by blast+
next
  assume a: "evaluation_nb2 optimum_qa opt_optimum_qa metric2 validation = Inr (result2, d2, oa2)"
  then show len: "1000 \<le> length validation"
    by (auto simp: evaluation_nb2_def dataset_select_take split: if_splits)
  with a have es: "evaluation_step
      (\<lambda>i. evaluate_nb2 (map_option (\<lambda>p. p i) optimum_qa) (map_option (\<lambda>p. p i) opt_optimum_qa))
      metric2 (take 1000 validation) = Inr (result2, d2, oa2)"
    by (simp add: evaluation_nb2_def dataset_select_take)
  have lt: "length (take 1000 validation) = 1000" using len by simp
  from evaluation_step_Inr [OF es, unfolded lt]
  have f: "map fst result2 = take 1000 validation"
    and g: "\<forall>j<1000.
         evaluate_nb2 (map_option (\<lambda>p. p j) optimum_qa) (map_option (\<lambda>p. p j) opt_optimum_qa)
           (take 1000 validation ! j) = Inr (snd (result2 ! j))"
    and h: "metric2 (column default result2) (column reference result2) = Inr d2"
           "metric2 (column optimized result2) (column reference result2) = Inr oa2"
    by blast+
  show "map fst result2 = take 1000 validation" by (rule f)
  show "\<forall>j<1000.
         evaluate_nb2 (map_option (\<lambda>p. p j) optimum_qa) (map_option (\<lambda>p. p j) opt_optimum_qa)
           (validation ! j) = Inr (snd (result2 ! j))"
    using g by simp
  show "metric2 (column default result2) (column reference result2) = Inr d2"
    and "metric2 (column optimized result2) (column reference result2) = Inr oa2"
    by (rule h)+
qed

lemma evaluation_nb1_sample:
  "\<exists>result d oa. evaluation_nb1 sample_qa sample_qa sample_metric (sample_split n)
     = Inr (result, d, oa)"
  unfolding evaluation_nb1_def Let_def
  by (rule evaluation_step_sample_ok) (simp add: evaluate_def sample_qa_def)

lemma evaluation_nb2_sample:
  assumes "1000 \<le> n"
  shows "\<exists>result d oa. evaluation_nb2 (Some sample_qa) (Some sample_qa) sample_metric (sample_split n)
     = Inr (result, d, oa)"
proof -
  have "\<exists>result d oa. evaluation_step
      (\<lambda>i. evaluate_nb2 (map_option (\<lambda>p. p i) (Some sample_qa)) (map_option (\<lambda>p. p i) (Some sample_qa)))
      sample_metric (take 1000 (sample_split n)) = Inr (result, d, oa)"
    by (rule evaluation_step_sample_ok) (simp add: evaluate_nb2_def sample_qa_def)
  then show ?thesis
    using assms by (simp add: evaluation_nb2_def dataset_select_take sample_split_props)
qed

theorem evaluation_maps_eval_dataset_witness:
  "\<exists>result d oa result2 d2 oa2.
     evaluation_nb1 sample_qa sample_qa sample_metric (sample_split 3) = Inr (result, d, oa) \<and>
     map fst result = sample_split 3 \<and>
     evaluation_nb2 (Some sample_qa) (Some sample_qa) sample_metric (sample_split 1000)
       = Inr (result2, d2, oa2) \<and>
     map fst result2 = sample_split 1000"
proof -
  from evaluation_nb1_sample [of 3] obtain result d oa
    where a: "evaluation_nb1 sample_qa sample_qa sample_metric (sample_split 3) = Inr (result, d, oa)"
    by blast
  from evaluation_nb2_sample [of 1000] obtain result2 d2 oa2
    where b: "evaluation_nb2 (Some sample_qa) (Some sample_qa) sample_metric (sample_split 1000)
       = Inr (result2, d2, oa2)"
    by auto
  from evaluation_maps_eval_dataset
    [of sample_qa sample_qa sample_metric "sample_split 3" result d oa]
    a
  have 1: "map fst result = sample_split 3" by blast
  from evaluation_maps_eval_dataset
    [of _ _ _ "sample_split 1000" _ _ _ "Some sample_qa" "Some sample_qa" sample_metric result2 d2 oa2]
    b
  have 2: "map fst result2 = sample_split 1000" by (simp add: sample_split_props)
  from a b 1 2 show ?thesis by blast
qed

text \<open>
  C4 as stated fails in the second notebook: of a validation split of 1001 rows the
  evaluation step evaluates 1000, and the last row of the split is in no row of the
  result.
\<close>

theorem evaluation_nb2_subset_counterexample:
  "\<exists>result d oa.
     evaluation_nb2 (Some sample_qa) (Some sample_qa) sample_metric (sample_split 1001)
       = Inr (result, d, oa) \<and>
     length result = 1000 \<and> length (sample_split 1001) = 1001 \<and>
     sample_split 1001 ! 1000 \<notin> set (map fst result)"
proof -
  from evaluation_nb2_sample [of 1001] obtain result d oa
    where a: "evaluation_nb2 (Some sample_qa) (Some sample_qa) sample_metric (sample_split 1001)
       = Inr (result, d, oa)"
    by auto
  then have "evaluation_step
      (\<lambda>i. evaluate_nb2 (map_option (\<lambda>p. p i) (Some sample_qa)) (map_option (\<lambda>p. p i) (Some sample_qa)))
      sample_metric (take 1000 (sample_split 1001)) = Inr (result, d, oa)"
    by (simp add: evaluation_nb2_def dataset_select_take sample_split_props)
  from evaluation_step_Inr [OF this] have m: "map fst result = sample_split 1000"
    by (simp add: sample_split_props)
  then have l: "length result = 1000"
    by (metis length_map sample_split_props(1))
  have "sample_split 1001 ! 1000 \<notin> set (map fst result)"
    unfolding m
  proof
    assume "sample_split 1001 ! 1000 \<in> set (sample_split 1000)"
    then obtain i where i: "i < 1000" "sample_split 1000 ! i = sample_split 1001 ! 1000"
      by (auto simp: in_set_conv_nth sample_split_props)
    then have "ex_id (sample_split 1000 ! i) = ex_id (sample_split 1001 ! 1000)" by simp
    then have "replicate i CHR ''x'' = replicate 1000 CHR ''x''"
      using i(1) by (simp add: sample_split_props)
    then have "i = 1000" by (metis length_replicate)
    with i(1) show False by simp
  qed
  with a l sample_split_props(1) [of 1001] show ?thesis by blast
qed

section \<open>Shape of requests and responses\<close>

lemma run_loops_requests:
  assumes "run_loops pipe clock req0 = Inr b" "PipeCall k req \<in> set (events b)"
  shows "req = req0"
proof -
  from assms(1) have "\<forall>k<310. \<exists>r. pipe k req0 = Inr r"
    using run_loops_Inr_D [of pipe clock req0] by blast
  from run_loops_ok [of pipe req0 clock, OF this] assms(1)
  have "events b = map (\<lambda>k. PipeCall k req0) [0..<10] @
                   concat (map (\<lambda>i. [PerfCounter (2 * i), PipeCall (10 + i) req0,
                                       PerfCounter (2 * i + 1)]) [0..<300])"
    by auto
  with assms(2) show ?thesis by (auto simp del: upt_Suc)
qed

text \<open>
  The question-answering cells. The only request \<open>evaluate\<close> sends to either pipeline is
  the question and the context of the example; of each response it reads the \<open>answer\<close>,
  which becomes the \<open>prediction_text\<close>, and nothing else, so that responses differing in
  score, start or end give the same record. Every call of the first notebook's
  \<open>measure_latency\<close> carries the question and the context of the benchmark cell.
\<close>

lemma qa_requests_and_answers:
  "evaluate vanilla_qa optimized_qa example =
     evaluate (\<lambda>_. vanilla_qa (QA (ex_question example) (ex_context example)))
              (\<lambda>_. optimized_qa (QA (ex_question example) (ex_context example))) example \<and>
   evaluate (\<lambda>_. Inr r1) (\<lambda>_. Inr r2) example =
     Inr \<lparr>reference = \<lparr>ref_id = ex_id example, ref_answers = ex_answers example\<rparr>,
          default = \<lparr>pred_id = ex_id example, prediction_text = answer r1\<rparr>,
          optimized = \<lparr>pred_id = ex_id example, prediction_text = answer r2\<rparr>\<rparr> \<and>
   evaluate_nb2 (Some (\<lambda>_. Inr r1)) (Some (\<lambda>_. Inr r2)) example =
     Inr \<lparr>reference = \<lparr>ref_id = ex_id example, ref_answers = ex_answers example\<rparr>,
          default = \<lparr>pred_id = ex_id example, prediction_text = answer r1,
                     no_answer_probability = 0\<rparr>,
          optimized = \<lparr>pred_id = ex_id example, prediction_text = answer r2,
                       no_answer_probability = 0\<rparr>\<rparr> \<and>
   (run_loops pipe clock (QA bench_question bench_context) = Inr b \<longrightarrow>
      (\<forall>k req. PipeCall k req \<in> set (events b) \<longrightarrow> req = QA bench_question bench_context))"
  using run_loops_requests [of pipe clock "QA bench_question bench_context" b]
  by (simp add: evaluate_def evaluate_nb2_def)

section \<open>Properties of the printed reports\<close>

lemma lookup_restrict: "lookup (d |` {key}) key = lookup d key"
  by (simp add: lookup_def)

lemma measure_latency_with_Inr:
  assumes "measure_latency_with req pipe clock = Inr (report, p95)"
  shows "\<exists>b. run_loops pipe clock req = Inr b \<and> length (latencies b) = 300 \<and>
             p95 = 1000 * np_percentile (latencies b) 95 \<and> report ! 1 = Repr p95"
proof -
  from assms obtain b where b: "run_loops pipe clock req = Inr b"
    and p: "p95 = 1000 * np_percentile (latencies b) 95" and r: "report ! 1 = Repr p95"
    by (auto simp: measure_latency_with_def Let_def split: sum.splits)
  from b have "\<forall>k<310. \<exists>r. pipe k req = Inr r"
    using run_loops_Inr_D [of pipe clock req] by blast
  from run_loops_ok [of pipe req clock, OF this] b
  have "latencies b = map (\<lambda>i. clock (2 * i + 1) - clock (2 * i)) [0..<300]"
    by auto
  then have "length (latencies b) = 300" by simp
  with b p r show ?thesis by blast
qed

lemma benchmark_print_lines:
  "benchmark_print ops label what first_result second_result = (ls, None) \<Longrightarrow>
   \<exists>rv pv ro po. first_result = Inr (rv, pv) \<and> second_result = Inr (ro, po) \<and>
     take 2 ls = [Lit ''Vanilla model: '' # rv, Lit (label @ '' model: '') # ro]"
  by (auto simp: benchmark_print_def split: sum.splits)

lemma measure_latency_with_ok:
  assumes "\<forall>k<310. \<exists>r. pipe k req = Inr r"
  shows "\<exists>report p95. measure_latency_with req pipe clock = Inr (report, p95)"
  using run_loops_ok [of pipe req clock, OF assms]
  by (simp add: measure_latency_with_def Let_def)

lemma evaluation_step_const_ok:
  assumes "\<forall>j<length ds. \<exists>y. f j (ds ! j) = Inr y"
  shows "\<exists>result. evaluation_step f (\<lambda>p r. Inr s) ds = Inr (result, s, s)"
proof -
  from dataset_map_ok [of ds f 0] assms obtain rows where "dataset_map f 0 ds = Inr rows"
    by auto
  then show ?thesis by (simp add: evaluation_step_def)
qed

lemma evaluation_nb1_const:
  "\<exists>result. evaluation_nb1 sample_qa sample_qa (\<lambda>p r. Inr s) (sample_split n) = Inr (result, s, s)"
  unfolding evaluation_nb1_def Let_def
  by (rule evaluation_step_const_ok) (simp add: evaluate_def sample_qa_def)

lemma evaluation_nb2_const:
  assumes "1000 \<le> n"
  shows "\<exists>result. evaluation_nb2 (Some sample_qa) (Some sample_qa) (\<lambda>p r. Inr s) (sample_split n)
     = Inr (result, s, s)"
proof -
  have "\<exists>result. evaluation_step
      (\<lambda>i. evaluate_nb2 (map_option (\<lambda>p. p i) (Some sample_qa)) (map_option (\<lambda>p. p i) (Some sample_qa)))
      (\<lambda>p r. Inr s) (take 1000 (sample_split n)) = Inr (result, s, s)"
    by (rule evaluation_step_const_ok) (simp add: evaluate_nb2_def sample_qa_def)
  then show ?thesis
    using assms by (simp add: evaluation_nb2_def dataset_select_take sample_split_props)
qed

lemma sample_metric_const: "sample_metric = (\<lambda>p r. Inr [''exact_match'' \<mapsto> 80, ''f1'' \<mapsto> 87])"
  by (simp add: sample_metric_def fun_eq_iff)

text \<open>
  C2, as amended. Whenever the evaluation of the first notebook returns, the two scores
  it prints from are what \<open>metric.compute\<close> returned on the predictions for every row
  of the validation split, and the cell prints the F1 of the vanilla and of the
  optimized model and their ratio; what it prints depends on the \<open>f1\<close> entries alone,
  so exact-match is not reported there. Whenever the evaluation of the second notebook
  returns, the scores are those of the first 1000 rows of the split, and its first two
  lines are the exact score and the F1 of the vanilla and of the optimized model. The
  benchmark cell of either notebook, when it ends without an exception, prints for both
  of its pipelines the report of \<open>measure_latency\<close>, whose first figure is the P95
  latency: 1000 times the 95th percentile of the 300 latencies that \<open>measure_latency\<close>
  records on the one request of its cell, whatever the dataset.
\<close>

theorem reported_statistics:
  "(evaluation_nb1 vanilla_qa optimized_qa metric validation = Inr (result, default_acc, optimized_acc) \<and>
    default_acc ''f1'' = Some fd \<and> optimized_acc ''f1'' = Some fo \<and> fd \<noteq> 0 \<longrightarrow>
      map fst result = validation \<and>
      (\<forall>j<length validation.
         evaluate (vanilla_qa j) (optimized_qa j) (validation ! j) = Inr (snd (result ! j))) \<and>
      metric (column default result) (column reference result) = Inr default_acc \<and>
      metric (column optimized result) (column reference result) = Inr optimized_acc \<and>
      evaluation_cell_nb1 ops vanilla_qa optimized_qa metric validation =
        ([[Lit ''vanilla model: f1='', Repr fd, Lit ''%''],
          [Lit ''optimized model: f1='', Repr fo, Lit ''%''],
          [Lit ''The optimized model achieves '',
           Fixed 2 (fmul ops (fround ops (fdiv ops fo fd) 2) 100),
           Lit ''% accuracy of the fp32 model'']], None)) \<and>
   eval_print_nb1 ops default_acc optimized_acc =
     eval_print_nb1 ops (default_acc |` {''f1''}) (optimized_acc |` {''f1''}) \<and>
   (evaluation_nb2 optimum_qa opt_optimum_qa metric2 validation = Inr (result2, d2, oa2) \<and>
    d2 ''exact'' = Some ed \<and> d2 ''f1'' = Some fd2 \<and>
    oa2 ''exact'' = Some eo \<and> oa2 ''f1'' = Some fo2 \<longrightarrow>
      map fst result2 = take 1000 validation \<and>
      (\<forall>j<1000.
         evaluate_nb2 (map_option (\<lambda>p. p j) optimum_qa) (map_option (\<lambda>p. p j) opt_optimum_qa)
           (validation ! j) = Inr (snd (result2 ! j))) \<and>
      metric2 (column default result2) (column reference result2) = Inr d2 \<and>
      metric2 (column optimized result2) (column reference result2) = Inr oa2 \<and>
      take 2 (fst (evaluation_cells_nb2 ops optimum_qa opt_optimum_qa metric2 validation
                     quantized results)) =
        [[Lit ''vanilla model: exact='', Repr ed, Lit ''% f1='', Repr fd2, Lit ''%''],
         [Lit ''optimized model: exact='', Repr eo, Lit ''% f1='', Repr fo2, Lit ''%'']]) \<and>
   (benchmark_nb1 ops vanilla_pipe optimized_pipe clock = (lines, None) \<longrightarrow>
      (\<exists>rv pv ro po bv bo.
         take 2 lines = [Lit ''Vanilla model: '' # rv, Lit ''Optimized model: '' # ro] \<and>
         rv ! 1 = Repr pv \<and> ro ! 1 = Repr po \<and>
         run_loops vanilla_pipe clock (QA bench_question bench_context) = Inr bv \<and>
         run_loops optimized_pipe (\<lambda>k. clock (600 + k)) (QA bench_question bench_context) = Inr bo \<and>
         length (latencies bv) = 300 \<and> length (latencies bo) = 300 \<and>
         pv = 1000 * np_percentile (latencies bv) 95 \<and>
         po = 1000 * np_percentile (latencies bo) 95)) \<and>
   (benchmark_nb2 ops payload_length vanilla_clx clx clock = (lines2, None) \<longrightarrow>
      (\<exists>n quantized_pipe rv pv ro po bv bo.
         payload_length = Inr n \<and> clx = Some quantized_pipe \<and>
         take 3 lines2 = [[Lit ''Payload sequence length: '', Whole (int n)],
                          Lit ''Vanilla model: '' # rv, Lit ''Quantized model: '' # ro] \<and>
         rv ! 1 = Repr pv \<and> ro ! 1 = Repr po \<and>
         run_loops vanilla_clx clock (Text bench_payload) = Inr bv \<and>
         run_loops quantized_pipe (\<lambda>k. clock (600 + k)) (Text bench_payload) = Inr bo \<and>
         length (latencies bv) = 300 \<and> length (latencies bo) = 300 \<and>
         pv = 1000 * np_percentile (latencies bv) 95 \<and>
         po = 1000 * np_percentile (latencies bo) 95))"
proof (intro conjI impI)
  assume a: "evaluation_nb1 vanilla_qa optimized_qa metric validation = Inr (result, default_acc, optimized_acc) \<and>
    default_acc ''f1'' = Some fd \<and> optimized_acc ''f1'' = Some fo \<and> fd \<noteq> 0"
  then have "evaluation_step (\<lambda>i. evaluate (vanilla_qa i) (optimized_qa i)) metric validation
      = Inr (result, default_acc, optimized_acc)"
    by (simp add: evaluation_nb1_def)
  from evaluation_step_Inr [OF this]
  show "map fst result = validation"
    and "\<forall>j<length validation.
         evaluate (vanilla_qa j) (optimized_qa j) (validation ! j) = Inr (snd (result ! j))"
    and "metric (column default result) (column reference result) = Inr default_acc"
    and "metric (column optimized result) (column reference result) = Inr optimized_acc"
    by blast+
  from a show "evaluation_cell_nb1 ops vanilla_qa optimized_qa metric validation =
        ([[Lit ''vanilla model: f1='', Repr fd, Lit ''%''],
          [Lit ''optimized model: f1='', Repr fo, Lit ''%''],
          [Lit ''The optimized model achieves '',
           Fixed 2 (fmul ops (fround ops (fdiv ops fo fd) 2) 100),
           Lit ''% accuracy of the fp32 model'']], None)"
    by (simp add: evaluation_cell_nb1_def eval_print_nb1_def retention_line_nb1_def lookup_def)
next
  show "eval_print_nb1 ops default_acc optimized_acc =
     eval_print_nb1 ops (default_acc |` {''f1''}) (optimized_acc |` {''f1''})"
    by (simp only: eval_print_nb1_def retention_line_nb1_def lookup_restrict)
next
  assume a: "evaluation_nb2 optimum_qa opt_optimum_qa metric2 validation = Inr (result2, d2, oa2) \<and>
    d2 ''exact'' = Some ed \<and> d2 ''f1'' = Some fd2 \<and>
    oa2 ''exact'' = Some eo \<and> oa2 ''f1'' = Some fo2"
  then have len: "1000 \<le> length validation"
    by (auto simp: evaluation_nb2_def dataset_select_take split: if_splits)
  with a have es: "evaluation_step
      (\<lambda>i. evaluate_nb2 (map_option (\<lambda>p. p i) optimum_qa) (map_option (\<lambda>p. p i) opt_optimum_qa))
      metric2 (take 1000 validation) = Inr (result2, d2, oa2)"
    by (simp add: evaluation_nb2_def dataset_select_take)
  have lt: "length (take 1000 validation) = 1000" using len by simp
  from evaluation_step_Inr [OF es, unfolded lt]
  have g: "\<forall>j<1000.
         evaluate_nb2 (map_option (\<lambda>p. p j) optimum_qa) (map_option (\<lambda>p. p j) opt_optimum_qa)
           (take 1000 validation ! j) = Inr (snd (result2 ! j))"
    by blast
  then show "\<forall>j<1000.
         evaluate_nb2 (map_option (\<lambda>p. p j) optimum_qa) (map_option (\<lambda>p. p j) opt_optimum_qa)
           (validation ! j) = Inr (snd (result2 ! j))"
    by simp
  from evaluation_step_Inr [OF es]
  show "map fst result2 = take 1000 validation"
    and "metric2 (column default result2) (column reference result2) = Inr d2"
    and "metric2 (column optimized result2) (column reference result2) = Inr oa2"
    by blast+
  from a show "take 2 (fst (evaluation_cells_nb2 ops optimum_qa opt_optimum_qa metric2 validation
                     quantized results)) =
        [[Lit ''vanilla model: exact='', Repr ed, Lit ''% f1='', Repr fd2, Lit ''%''],
         [Lit ''optimized model: exact='', Repr eo, Lit ''% f1='', Repr fo2, Lit ''%'']]"
    by (simp add: evaluation_cells_nb2_def eval_print_nb2_def exact_f1_line_def lookup_def
             split: prod.splits)
next
  assume a: "benchmark_nb1 ops vanilla_pipe optimized_pipe clock = (lines, None)"
  from benchmark_print_lines [OF a [unfolded benchmark_nb1_def]]
  obtain rv pv ro po where m: "measure_latency vanilla_pipe clock = Inr (rv, pv)"
      "measure_latency optimized_pipe (\<lambda>k. clock (600 + k)) = Inr (ro, po)"
    and t: "take 2 lines = [Lit ''Vanilla model: '' # rv, Lit (''Optimized'' @ '' model: '') # ro]"
    by blast
  from measure_latency_with_Inr [OF m(1) [unfolded measure_latency_def]]
  obtain bv where bv: "run_loops vanilla_pipe clock (QA bench_question bench_context) = Inr bv \<and>
      length (latencies bv) = 300 \<and> pv = 1000 * np_percentile (latencies bv) 95 \<and>
      rv ! 1 = Repr pv" ..
  from measure_latency_with_Inr [OF m(2) [unfolded measure_latency_def]]
  obtain bo where bo: "run_loops optimized_pipe (\<lambda>k. clock (600 + k))
        (QA bench_question bench_context) = Inr bo \<and>
      length (latencies bo) = 300 \<and> po = 1000 * np_percentile (latencies bo) 95 \<and>
      ro ! 1 = Repr po" ..
  show "\<exists>rv pv ro po bv bo.
         take 2 lines = [Lit ''Vanilla model: '' # rv, Lit ''Optimized model: '' # ro] \<and>
         rv ! 1 = Repr pv \<and> ro ! 1 = Repr po \<and>
         run_loops vanilla_pipe clock (QA bench_question bench_context) = Inr bv \<and>
         run_loops optimized_pipe (\<lambda>k. clock (600 + k)) (QA bench_question bench_context) = Inr bo \<and>
         length (latencies bv) = 300 \<and> length (latencies bo) = 300 \<and>
         pv = 1000 * np_percentile (latencies bv) 95 \<and>
         po = 1000 * np_percentile (latencies bo) 95"
    apply (rule exI [where x = rv], rule exI [where x = pv])
    apply (rule exI [where x = ro], rule exI [where x = po])
    apply (rule exI [where x = bv], rule exI [where x = bo])
    using t bv bo by simp
next
  assume a: "benchmark_nb2 ops payload_length vanilla_clx clx clock = (lines2, None)"
  then obtain n where n: "payload_length = Inr n"
    by (auto simp: benchmark_nb2_def split: sum.splits)
  from a n obtain rv pv where v: "measure_latency_nb2 vanilla_clx clock = Inr (rv, pv)"
    by (auto simp: benchmark_nb2_def split: sum.splits prod.splits)
  from a n v obtain quantized_pipe where q: "clx = Some quantized_pipe"
    by (auto simp: benchmark_nb2_def split: option.splits prod.splits)
  from a n v q obtain ls where ls: "benchmark_print ops ''Quantized'' ''quantization'' (Inr (rv, pv))
        (measure_latency_nb2 quantized_pipe (\<lambda>k. clock (600 + k))) = (ls, None)"
      and l2: "lines2 = [Lit ''Payload sequence length: '', Whole (int n)] # ls"
    by (auto simp: benchmark_nb2_def split: prod.splits)
  from benchmark_print_lines [OF ls]
  obtain ro po where o: "measure_latency_nb2 quantized_pipe (\<lambda>k. clock (600 + k)) = Inr (ro, po)"
    and t: "take 2 ls = [Lit ''Vanilla model: '' # rv, Lit (''Quantized'' @ '' model: '') # ro]"
    by blast
  from measure_latency_with_Inr [OF v [unfolded measure_latency_nb2_def]]
  obtain bv where bv: "run_loops vanilla_clx clock (Text bench_payload) = Inr bv \<and>
      length (latencies bv) = 300 \<and> pv = 1000 * np_percentile (latencies bv) 95 \<and>
      rv ! 1 = Repr pv" ..
  from measure_latency_with_Inr [OF o [unfolded measure_latency_nb2_def]]
  obtain bo where bo: "run_loops quantized_pipe (\<lambda>k. clock (600 + k)) (Text bench_payload) = Inr bo \<and>
      length (latencies bo) = 300 \<and> po = 1000 * np_percentile (latencies bo) 95 \<and>
      ro ! 1 = Repr po" ..
  have t3: "take 3 lines2 = [[Lit ''Payload sequence length: '', Whole (int n)],
                          Lit ''Vanilla model: '' # rv, Lit ''Quantized model: '' # ro]"
    using t l2 by (simp add: numeral_3_eq_3 numeral_2_eq_2)
  show "\<exists>n quantized_pipe rv pv ro po bv bo.
         payload_length = Inr n \<and> clx = Some quantized_pipe \<and>
         take 3 lines2 = [[Lit ''Payload sequence length: '', Whole (int n)],
                          Lit ''Vanilla model: '' # rv, Lit ''Quantized model: '' # ro] \<and>
         rv ! 1 = Repr pv \<and> ro ! 1 = Repr po \<and>
         run_loops vanilla_clx clock (Text bench_payload) = Inr bv \<and>
         run_loops quantized_pipe (\<lambda>k. clock (600 + k)) (Text bench_payload) = Inr bo \<and>
         length (latencies bv) = 300 \<and> length (latencies bo) = 300 \<and>
         pv = 1000 * np_percentile (latencies bv) 95 \<and>
         po = 1000 * np_percentile (latencies bo) 95"
    apply (rule exI [where x = n], rule exI [where x = quantized_pipe])
    apply (rule exI [where x = rv], rule exI [where x = pv])
    apply (rule exI [where x = ro], rule exI [where x = po])
    apply (rule exI [where x = bv], rule exI [where x = bo])
    using n q t3 bv bo by simp
qed

theorem reported_statistics_witness:
  "(\<exists>result.
      evaluation_nb1 sample_qa sample_qa sample_metric (sample_split 3) =
        Inr (result, [''exact_match'' \<mapsto> 80, ''f1'' \<mapsto> 87], [''exact_match'' \<mapsto> 80, ''f1'' \<mapsto> 87]) \<and>
      map fst result = sample_split 3) \<and>
   evaluation_cell_nb1 exact_ops sample_qa sample_qa sample_metric (sample_split 3) =
     ([[Lit ''vanilla model: f1='', Repr 87, Lit ''%''],
       [Lit ''optimized model: f1='', Repr 87, Lit ''%''],
       [Lit ''The optimized model achieves '',
        Fixed 2 100,
        Lit ''% accuracy of the fp32 model'']], None) \<and>
   (\<exists>result2.
      evaluation_nb2 (Some sample_qa) (Some sample_qa) (\<lambda>p r. Inr [''exact'' \<mapsto> 80, ''f1'' \<mapsto> 87])
          (sample_split 1001) =
        Inr (result2, [''exact'' \<mapsto> 80, ''f1'' \<mapsto> 87], [''exact'' \<mapsto> 80, ''f1'' \<mapsto> 87]) \<and>
      map fst result2 = sample_split 1000) \<and>
   take 2 (fst (evaluation_cells_nb2 exact_ops (Some sample_qa) (Some sample_qa)
                  (\<lambda>p r. Inr [''exact'' \<mapsto> 80, ''f1'' \<mapsto> 87]) (sample_split 1001) None None)) =
     [[Lit ''vanilla model: exact='', Repr 80, Lit ''% f1='', Repr 87, Lit ''%''],
      [Lit ''optimized model: exact='', Repr 80, Lit ''% f1='', Repr 87, Lit ''%'']] \<and>
   (\<exists>lines rv pv ro po bv.
      benchmark_nb1 exact_ops sample_qa sample_qa real = (lines, None) \<and>
      take 2 lines = [Lit ''Vanilla model: '' # rv, Lit ''Optimized model: '' # ro] \<and>
      rv ! 1 = Repr pv \<and> ro ! 1 = Repr po \<and>
      run_loops sample_qa real (QA bench_question bench_context) = Inr bv \<and>
      length (latencies bv) = 300 \<and> pv = 1000 * np_percentile (latencies bv) 95) \<and>
   (\<exists>lines2 rv pv ro po bv.
      benchmark_nb2 exact_ops (Inr 128) sample_clx (Some sample_clx) real = (lines2, None) \<and>
      take 3 lines2 = [[Lit ''Payload sequence length: '', Whole 128],
                       Lit ''Vanilla model: '' # rv, Lit ''Quantized model: '' # ro] \<and>
      rv ! 1 = Repr pv \<and> ro ! 1 = Repr po \<and>
      run_loops sample_clx real (Text bench_payload) = Inr bv \<and>
      length (latencies bv) = 300 \<and> pv = 1000 * np_percentile (latencies bv) 95)"
proof -
  define s1 :: scores where "s1 = [''exact_match'' \<mapsto> 80, ''f1'' \<mapsto> 87]"
  define s2 :: scores where "s2 = [''exact'' \<mapsto> 80, ''f1'' \<mapsto> 87]"
  have s1f: "s1 ''f1'' = Some 87" and s2f: "s2 ''f1'' = Some 87" "s2 ''exact'' = Some 80"
    by (simp_all add: s1_def s2_def)
  from evaluation_nb1_const [of s1 3] obtain result
    where a: "evaluation_nb1 sample_qa sample_qa sample_metric (sample_split 3) = Inr (result, s1, s1)"
    unfolding sample_metric_const s1_def by blast
  from evaluation_nb2_const [of 1001 s2] obtain result2
    where b: "evaluation_nb2 (Some sample_qa) (Some sample_qa) (\<lambda>p r. Inr s2) (sample_split 1001)
       = Inr (result2, s2, s2)"
    by auto
  have ok: "\<forall>k<310. \<exists>r. sample_qa k (QA bench_question bench_context) = Inr r"
    "\<forall>k<310. \<exists>r. sample_clx k (Text bench_payload) = Inr r"
    by (simp_all add: sample_qa_def sample_clx_def)
  from measure_latency_with_ok [of sample_qa "QA bench_question bench_context" real, OF ok(1)]
    measure_latency_with_ok [of sample_qa "QA bench_question bench_context" "\<lambda>k. real (600 + k)", OF ok(1)]
  obtain lines where l: "benchmark_nb1 exact_ops sample_qa sample_qa real = (lines, None)"
    by (fastforce simp: benchmark_nb1_def benchmark_print_def measure_latency_def)
  from measure_latency_with_ok [of sample_clx "Text bench_payload" real, OF ok(2)]
    measure_latency_with_ok [of sample_clx "Text bench_payload" "\<lambda>k. real (600 + k)", OF ok(2)]
  obtain lines2 where l2: "benchmark_nb2 exact_ops (Inr 128) sample_clx (Some sample_clx) real = (lines2, None)"
    by (fastforce simp: benchmark_nb2_def benchmark_print_def measure_latency_nb2_def)
  note t = reported_statistics
    [of sample_qa sample_qa sample_metric "sample_split 3" result s1 s1 87 87 exact_ops, THEN conjunct1]
  note t4 = reported_statistics
    [of _ _ _ _ _ _ _ _ _ exact_ops _ _ _ _ _ _ _ _ _ _ _ _ sample_qa sample_qa real lines,
     THEN conjunct2, THEN conjunct2, THEN conjunct2, THEN conjunct1]
  note t5 = reported_statistics
    [of _ _ _ _ _ _ _ _ _ exact_ops _ _ _ _ _ _ _ _ _ _ _ _ _ _ real _ "Inr 128" sample_clx
        "Some sample_clx" lines2,
     THEN conjunct2, THEN conjunct2, THEN conjunct2, THEN conjunct2]
  note t2 = reported_statistics
    [of _ _ _ "sample_split 1001" _ _ _ _ _ exact_ops
        "Some sample_qa" "Some sample_qa" "\<lambda>p r. Inr s2" result2 s2 s2 80 87 80 87 None None,
     THEN conjunct2, THEN conjunct2, THEN conjunct1]
  from t a s1f have 1: "map fst result = sample_split 3"
    and 2: "evaluation_cell_nb1 exact_ops sample_qa sample_qa sample_metric (sample_split 3) =
     ([[Lit ''vanilla model: f1='', Repr 87, Lit ''%''],
       [Lit ''optimized model: f1='', Repr 87, Lit ''%''],
       [Lit ''The optimized model achieves '',
        Fixed 2 (fmul exact_ops (fround exact_ops (fdiv exact_ops 87 87) 2) 100),
        Lit ''% accuracy of the fp32 model'']], None)"
    by simp_all
  from t2 b s2f have 3: "map fst result2 = sample_split 1000"
    and 4: "take 2 (fst (evaluation_cells_nb2 exact_ops (Some sample_qa) (Some sample_qa)
                  (\<lambda>p r. Inr s2) (sample_split 1001) None None)) =
     [[Lit ''vanilla model: exact='', Repr 80, Lit ''% f1='', Repr 87, Lit ''%''],
      [Lit ''optimized model: exact='', Repr 80, Lit ''% f1='', Repr 87, Lit ''%'']]"
    by (simp_all add: sample_split_props)
  from t4 l have 5: "\<exists>rv pv ro po bv.
      take 2 lines = [Lit ''Vanilla model: '' # rv, Lit ''Optimized model: '' # ro] \<and>
      rv ! 1 = Repr pv \<and> ro ! 1 = Repr po \<and>
      run_loops sample_qa real (QA bench_question bench_context) = Inr bv \<and>
      length (latencies bv) = 300 \<and> pv = 1000 * np_percentile (latencies bv) 95"
    by blast
  from t5 l2 have 6: "\<exists>rv pv ro po bv.
      take 3 lines2 = [[Lit ''Payload sequence length: '', Whole 128],
                       Lit ''Vanilla model: '' # rv, Lit ''Quantized model: '' # ro] \<and>
      rv ! 1 = Repr pv \<and> ro ! 1 = Repr po \<and>
      run_loops sample_clx real (Text bench_payload) = Inr bv \<and>
      length (latencies bv) = 300 \<and> pv = 1000 * np_percentile (latencies bv) 95"
    by fastforce
  from a 1 have A: "\<exists>result.
      evaluation_nb1 sample_qa sample_qa sample_metric (sample_split 3) =
        Inr (result, [''exact_match'' \<mapsto> 80, ''f1'' \<mapsto> 87], [''exact_match'' \<mapsto> 80, ''f1'' \<mapsto> 87]) \<and>
      map fst result = sample_split 3"
    unfolding s1_def by blast
  from b 3 have B: "\<exists>result2.
      evaluation_nb2 (Some sample_qa) (Some sample_qa) (\<lambda>p r. Inr [''exact'' \<mapsto> 80, ''f1'' \<mapsto> 87])
          (sample_split 1001) =
        Inr (result2, [''exact'' \<mapsto> 80, ''f1'' \<mapsto> 87], [''exact'' \<mapsto> 80, ''f1'' \<mapsto> 87]) \<and>
      map fst result2 = sample_split 1000"
    unfolding s2_def by blast
  from 5 l have C: "\<exists>lines rv pv ro po bv.
      benchmark_nb1 exact_ops sample_qa sample_qa real = (lines, None) \<and>
      take 2 lines = [Lit ''Vanilla model: '' # rv, Lit ''Optimized model: '' # ro] \<and>
      rv ! 1 = Repr pv \<and> ro ! 1 = Repr po \<and>
      run_loops sample_qa real (QA bench_question bench_context) = Inr bv \<and>
      length (latencies bv) = 300 \<and> pv = 1000 * np_percentile (latencies bv) 95"
    by blast
  from 6 l2 have D: "\<exists>lines2 rv pv ro po bv.
      benchmark_nb2 exact_ops (Inr 128) sample_clx (Some sample_clx) real = (lines2, None) \<and>
      take 3 lines2 = [[Lit ''Payload sequence length: '', Whole 128],
                       Lit ''Vanilla model: '' # rv, Lit ''Quantized model: '' # ro] \<and>
      rv ! 1 = Repr pv \<and> ro ! 1 = Repr po \<and>
      run_loops sample_clx real (Text bench_payload) = Inr bv \<and>
      length (latencies bv) = 300 \<and> pv = 1000 * np_percentile (latencies bv) 95"
    by blast
  have r: "fmul exact_ops (fround exact_ops (fdiv exact_ops 87 87) 2) 100 = 100"
    by (simp add: exact_ops_def py_round_def round_half_even_def)
  from A 2 [unfolded r] B 4 [unfolded s2_def] C D show ?thesis by (intro conjI)
qed

text \<open>
  C2 as stated fails in the first notebook, on a split of three rows and pipelines that
  answer every call. The metric returns an exact-match score of 80 beside the F1 of 87,
  and the evaluation cell prints the same three lines as with a metric that returns the
  F1 alone: no line reports exact-match. The P95 that \<open>measure_latency\<close> returns is
  taken from 300 latencies, all of them of calls on the question and the context of the
  benchmark cell, which is the request of no row of the dataset.
\<close>

theorem evaluation_cell_nb1_counterexample:
  "(\<exists>result.
      evaluation_nb1 sample_qa sample_qa sample_metric (sample_split 3) =
        Inr (result, [''exact_match'' \<mapsto> 80, ''f1'' \<mapsto> 87], [''exact_match'' \<mapsto> 80, ''f1'' \<mapsto> 87])) \<and>
   (\<forall>ops.
      evaluation_cell_nb1 ops sample_qa sample_qa sample_metric (sample_split 3) =
        ([[Lit ''vanilla model: f1='', Repr 87, Lit ''%''],
          [Lit ''optimized model: f1='', Repr 87, Lit ''%''],
          [Lit ''The optimized model achieves '',
           Fixed 2 (fmul ops (fround ops (fdiv ops 87 87) 2) 100),
           Lit ''% accuracy of the fp32 model'']], None) \<and>
      evaluation_cell_nb1 ops sample_qa sample_qa (\<lambda>p r. Inr [''f1'' \<mapsto> 87]) (sample_split 3) =
        evaluation_cell_nb1 ops sample_qa sample_qa sample_metric (sample_split 3)) \<and>
   (\<exists>report p95 b.
      measure_latency sample_qa real = Inr (report, p95) \<and>
      run_loops sample_qa real (QA bench_question bench_context) = Inr b \<and>
      p95 = 1000 * np_percentile (latencies b) 95 \<and>
      length (latencies b) = 300 \<and>
      events b = map (\<lambda>k. PipeCall k (QA bench_question bench_context)) [0..<10] @
                 concat (map (\<lambda>i. [PerfCounter (2 * i),
                                     PipeCall (10 + i) (QA bench_question bench_context),
                                     PerfCounter (2 * i + 1)]) [0..<300])) \<and>
   length (sample_split 3) = 3 \<and>
   QA bench_question bench_context \<notin>
     set (map (\<lambda>example. QA (ex_question example) (ex_context example)) (sample_split 3))"
proof -
  define s1 :: scores where "s1 = [''exact_match'' \<mapsto> 80, ''f1'' \<mapsto> 87]"
  define s0 :: scores where "s0 = [''f1'' \<mapsto> 87]"
  from evaluation_nb1_const [of s1 3] obtain result
    where a: "evaluation_nb1 sample_qa sample_qa sample_metric (sample_split 3) = Inr (result, s1, s1)"
    unfolding sample_metric_const s1_def by blast
  from evaluation_nb1_const [of s0 3] obtain result0
    where a0: "evaluation_nb1 sample_qa sample_qa (\<lambda>p r. Inr s0) (sample_split 3)
       = Inr (result0, s0, s0)"
    by blast
  have p1: "evaluation_cell_nb1 ops sample_qa sample_qa sample_metric (sample_split 3) =
        ([[Lit ''vanilla model: f1='', Repr 87, Lit ''%''],
          [Lit ''optimized model: f1='', Repr 87, Lit ''%''],
          [Lit ''The optimized model achieves '',
           Fixed 2 (fmul ops (fround ops (fdiv ops 87 87) 2) 100),
           Lit ''% accuracy of the fp32 model'']], None)" for ops
    by (simp add: evaluation_cell_nb1_def a eval_print_nb1_def retention_line_nb1_def lookup_def
             s1_def)
  have p0: "evaluation_cell_nb1 ops sample_qa sample_qa (\<lambda>p r. Inr s0) (sample_split 3) =
        ([[Lit ''vanilla model: f1='', Repr 87, Lit ''%''],
          [Lit ''optimized model: f1='', Repr 87, Lit ''%''],
          [Lit ''The optimized model achieves '',
           Fixed 2 (fmul ops (fround ops (fdiv ops 87 87) 2) 100),
           Lit ''% accuracy of the fp32 model'']], None)" for ops
    unfolding evaluation_cell_nb1_def a0
    by (simp add: eval_print_nb1_def retention_line_nb1_def lookup_def s0_def)
  have ok: "\<forall>k<310. \<exists>r. sample_qa k (QA bench_question bench_context) = Inr r"
    by (simp add: sample_qa_def)
  from measure_latency_with_ok [of sample_qa "QA bench_question bench_context" real, OF ok]
  obtain report p95 where m: "measure_latency sample_qa real = Inr (report, p95)"
    unfolding measure_latency_def by blast
  from measure_latency_with_Inr [OF m [unfolded measure_latency_def]]
  obtain b where b: "run_loops sample_qa real (QA bench_question bench_context) = Inr b \<and>
      length (latencies b) = 300 \<and> p95 = 1000 * np_percentile (latencies b) 95 \<and>
      report ! 1 = Repr p95" ..
  from run_loops_ok [of sample_qa "QA bench_question bench_context" real, OF ok] b
  have ev: "events b = map (\<lambda>k. PipeCall k (QA bench_question bench_context)) [0..<10] @
                 concat (map (\<lambda>i. [PerfCounter (2 * i),
                                     PipeCall (10 + i) (QA bench_question bench_context),
                                     PerfCounter (2 * i + 1)]) [0..<300])"
    by auto
  have A: "\<exists>result.
      evaluation_nb1 sample_qa sample_qa sample_metric (sample_split 3) =
        Inr (result, [''exact_match'' \<mapsto> 80, ''f1'' \<mapsto> 87], [''exact_match'' \<mapsto> 80, ''f1'' \<mapsto> 87])"
    using a unfolding s1_def by blast
  have B: "\<forall>ops.
      evaluation_cell_nb1 ops sample_qa sample_qa sample_metric (sample_split 3) =
        ([[Lit ''vanilla model: f1='', Repr 87, Lit ''%''],
          [Lit ''optimized model: f1='', Repr 87, Lit ''%''],
          [Lit ''The optimized model achieves '',
           Fixed 2 (fmul ops (fround ops (fdiv ops 87 87) 2) 100),
           Lit ''% accuracy of the fp32 model'']], None) \<and>
      evaluation_cell_nb1 ops sample_qa sample_qa (\<lambda>p r. Inr [''f1'' \<mapsto> 87]) (sample_split 3) =
        evaluation_cell_nb1 ops sample_qa sample_qa sample_metric (sample_split 3)"
    using p1 p0 unfolding s0_def by simp
  have C: "\<exists>report p95 b.
      measure_latency sample_qa real = Inr (report, p95) \<and>
      run_loops sample_qa real (QA bench_question bench_context) = Inr b \<and>
      p95 = 1000 * np_percentile (latencies b) 95 \<and>
      length (latencies b) = 300 \<and>
      events b = map (\<lambda>k. PipeCall k (QA bench_question bench_context)) [0..<10] @
                 concat (map (\<lambda>i. [PerfCounter (2 * i),
                                     PipeCall (10 + i) (QA bench_question bench_context),
                                     PerfCounter (2 * i + 1)]) [0..<300])"
    apply (rule exI [where x = report], rule exI [where x = p95], rule exI [where x = b])
    using m b ev by simp
  have D: "length (sample_split 3) = 3" by (simp add: sample_split_props)
  have E: "QA bench_question bench_context \<notin>
     set (map (\<lambda>example. QA (ex_question example) (ex_context example)) (sample_split 3))"
    by (auto simp: sample_split_def sample_example_def bench_question_def)
  from A B C D E show ?thesis by (intro conjI)
qed

section \<open>Properties of the notebooks\<close>

lemma run_raised: "raised k \<noteq> None \<Longrightarrow> run ext ss k = k"
  by (cases ss) simp_all

lemma run_append: "run ext (a @ b) k = run ext b (run ext a k)"
proof (induction a arbitrary: k)
  case Nil
  then show ?case by simp
next
  case (Cons s a)
  then show ?case by (simp add: run_raised)
qed

lemma calls_of_append: "calls_of (a @ b) = calls_of a @ calls_of b"
  by (induction a rule: calls_of.induct) simp_all

lemma calls_of_Use: "calls_of (map Use xs) = []"
  by (induction xs) simp_all

lemma calls_of_Assign: "calls_of (map Assign xs) = []"
  by (induction xs) simp_all

lemma calls_of_concat_replicate: "calls_of (concat (replicate n ss)) = concat (replicate n (calls_of ss))"
  by (induction n) (simp_all add: calls_of_append)

lemma calls_of_shapes:
  "calls_of (import_from m xs) = [Import m]"
  "calls_of (call ys c) = [c]"
  "calls_of (assign_call x ys c) = [c]"
  "calls_of (measure_latency_stmts x p g) = replicate 310 (CallPipeline Bench)"
proof -
  have "concat (replicate n [c]) = replicate n c" for n and c :: lib_call
    by (induction n) simp_all
  then have "calls_of (measure_latency_stmts x p g) =
      replicate 10 (CallPipeline Bench) @ replicate 300 (CallPipeline Bench)"
    by (simp add: measure_latency_stmts_def calls_of_append calls_of_concat_replicate calls_of_Use)
  also have "\<dots> = replicate 310 (CallPipeline Bench)"
    by (simp flip: replicate_add)
  finally show "calls_of (measure_latency_stmts x p g) = replicate 310 (CallPipeline Bench)" .
qed (simp_all add: import_from_def call_def assign_call_def calls_of_append calls_of_Use calls_of_Assign)

lemma exec_trace:
  "\<exists>zs. trace (exec ext s k) = trace k @ zs \<and> prefix zs (calls_of [s]) \<and>
        (raised (exec ext s k) = None \<longrightarrow> zs = calls_of [s]) \<and>
        (\<not> writes_files s \<longrightarrow> files (exec ext s k) = replay ext (length (trace k)) zs (files k))"
proof (cases s)
  case (Lib c)
  then show ?thesis
    by (intro exI [where x = "[c]"]) (simp split: prod.splits)
qed (simp_all split: option.splits)

lemma run_trace:
  assumes "raised k = None"
  shows "\<exists>zs. trace (run ext ss k) = trace k @ zs \<and> prefix zs (calls_of ss) \<and>
        (raised (run ext ss k) = None \<longrightarrow> zs = calls_of ss) \<and>
        (list_all (\<lambda>s. \<not> writes_files s) ss \<longrightarrow>
           files (run ext ss k) = replay ext (length (trace k)) zs (files k))"
  using assms
proof (induction ss arbitrary: k)
  case Nil
  then show ?case by simp
next
  case (Cons s ss)
  define c0 where "c0 = calls_of [s]"
  from exec_trace [of ext s k] obtain zs
    where zs0: "trace (exec ext s k) = trace k @ zs \<and> prefix zs (calls_of [s]) \<and>
        (raised (exec ext s k) = None \<longrightarrow> zs = calls_of [s]) \<and>
        (\<not> writes_files s \<longrightarrow> files (exec ext s k) = replay ext (length (trace k)) zs (files k))" ..
  have zs: "trace (exec ext s k) = trace k @ zs" "prefix zs c0"
      "raised (exec ext s k) = None \<longrightarrow> zs = c0"
      "\<not> writes_files s \<longrightarrow> files (exec ext s k) = replay ext (length (trace k)) zs (files k)"
    unfolding c0_def using zs0 by simp_all
  have cs: "calls_of (s # ss) = c0 @ calls_of ss"
    unfolding c0_def by (cases s) simp_all
  have rp: "replay ext i (a @ b) fs = replay ext (i + length a) b (replay ext i a fs)" for i a b fs
    by (induction a arbitrary: i fs) simp_all
  show ?case
  proof (cases "raised (exec ext s k) = None")
    case True
    from Cons.IH [OF True] obtain ys
      where ys0: "trace (run ext ss (exec ext s k)) = trace (exec ext s k) @ ys \<and>
        prefix ys (calls_of ss) \<and>
        (raised (run ext ss (exec ext s k)) = None \<longrightarrow> ys = calls_of ss) \<and>
        (list_all (\<lambda>s. \<not> writes_files s) ss \<longrightarrow>
           files (run ext ss (exec ext s k)) =
             replay ext (length (trace (exec ext s k))) ys (files (exec ext s k)))" ..
    have ys: "trace (run ext ss (exec ext s k)) = trace (exec ext s k) @ ys"
        "prefix ys (calls_of ss)"
        "raised (run ext ss (exec ext s k)) = None \<longrightarrow> ys = calls_of ss"
        "list_all (\<lambda>s. \<not> writes_files s) ss \<longrightarrow>
           files (run ext ss (exec ext s k)) =
             replay ext (length (trace (exec ext s k))) ys (files (exec ext s k))"
      using ys0 by simp_all
    have r: "run ext (s # ss) k = run ext ss (exec ext s k)"
      using Cons.prems by simp
    have z: "zs = c0" using zs(3) True by simp
    have 1: "trace (run ext (s # ss) k) = trace k @ zs @ ys"
      unfolding r ys(1) zs(1) by simp
    have 2: "prefix (zs @ ys) (calls_of (s # ss))"
      unfolding cs z using ys(2) by simp
    have 3: "zs @ ys = calls_of (s # ss)" if "raised (run ext (s # ss) k) = None"
      using that ys(3) unfolding r cs z by simp
    have 4: "files (run ext (s # ss) k) = replay ext (length (trace k)) (zs @ ys) (files k)"
      if "list_all (\<lambda>s. \<not> writes_files s) (s # ss)"
    proof -
      from that have a: "\<not> writes_files s" "list_all (\<lambda>s. \<not> writes_files s) ss" by simp_all
      have "files (run ext (s # ss) k) =
          replay ext (length (trace k @ zs)) ys (replay ext (length (trace k)) zs (files k))"
        unfolding r using ys(4) a zs(1,4) by simp
      then show ?thesis by (simp add: rp)
    qed
    show ?thesis
    proof (intro exI [where x = "zs @ ys"] conjI impI)
      show "trace (run ext (s # ss) k) = trace k @ zs @ ys" by (rule 1)
      show "prefix (zs @ ys) (calls_of (s # ss))" by (rule 2)
      show "zs @ ys = calls_of (s # ss)" if "raised (run ext (s # ss) k) = None"
        using that by (rule 3)
      show "files (run ext (s # ss) k) = replay ext (length (trace k)) (zs @ ys) (files k)"
        if "list_all (\<lambda>s. \<not> writes_files s) (s # ss)"
        using that by (rule 4)
    qed
  next
    case False
    then have r: "run ext (s # ss) k = exec ext s k"
      using Cons.prems by (simp add: run_raised)
    have 1: "trace (run ext (s # ss) k) = trace k @ zs" unfolding r by (rule zs(1))
    have 2: "prefix zs (calls_of (s # ss))"
      unfolding cs using zs(2) by (rule prefix_prefix)
    have 3: "zs = calls_of (s # ss)" if "raised (run ext (s # ss) k) = None"
      using that False unfolding r by simp
    have 4: "files (run ext (s # ss) k) = replay ext (length (trace k)) zs (files k)"
      if "list_all (\<lambda>s. \<not> writes_files s) (s # ss)"
      using that zs(4) unfolding r by simp
    show ?thesis
    proof (intro exI [where x = zs] conjI impI)
      show "trace (run ext (s # ss) k) = trace k @ zs" by (rule 1)
      show "prefix zs (calls_of (s # ss))" by (rule 2)
      show "zs = calls_of (s # ss)" if "raised (run ext (s # ss) k) = None"
        using that by (rule 3)
      show "files (run ext (s # ss) k) = replay ext (length (trace k)) zs (files k)"
        if "list_all (\<lambda>s. \<not> writes_files s) (s # ss)"
        using that by (rule 4)
    qed
  qed
qed

lemma remdups_adj_snoc_prefix: "prefix (remdups_adj xs) (remdups_adj (xs @ [z]))"
proof (cases xs rule: rev_cases)
  case Nil
  then show ?thesis by simp
next
  case (snoc as x)
  then show ?thesis by (simp add: remdups_adj_append_two)
qed

lemma remdups_adj_prefix: "prefix xs ys \<Longrightarrow> prefix (remdups_adj xs) (remdups_adj ys)"
proof -
  have "prefix (remdups_adj xs) (remdups_adj (xs @ zs))" for zs
  proof (induction zs rule: rev_induct)
    case Nil
    then show ?case by simp
  next
    case (snoc z zs)
    have "prefix (remdups_adj (xs @ zs)) (remdups_adj ((xs @ zs) @ [z]))"
      by (rule remdups_adj_snoc_prefix)
    with snoc show ?case by (metis append.assoc prefix_order.trans)
  qed
  then show "prefix xs ys \<Longrightarrow> prefix (remdups_adj xs) (remdups_adj ys)"
    by (auto simp: prefix_def)
qed

lemma map_filter_append: "List.map_filter f (xs @ ys) = List.map_filter f xs @ List.map_filter f ys"
  by (simp add: List.map_filter_def)

lemma steps_of_prefix: "prefix xs ys \<Longrightarrow> prefix (steps_of xs) (steps_of ys)"
  unfolding steps_of_def
  by (rule remdups_adj_prefix) (auto simp: prefix_def map_filter_append)

lemma map_filter_bench:
  "List.map_filter step_of (replicate n (CallPipeline Bench)) = replicate n Benchmark"
  by (induction n) simp_all

lemma remdups_adj_replicate_tail:
  "remdups_adj (xs @ replicate (Suc n) x) = remdups_adj (xs @ [x])"
proof (induction n)
  case 0
  then show ?case by simp
next
  case (Suc n)
  have r2: "replicate (Suc (Suc n)) x = replicate n x @ [x, x]"
    by (induction n) simp_all
  have r1: "replicate (Suc n) x = replicate n x @ [x]"
    by (induction n) simp_all
  have "remdups_adj (xs @ replicate (Suc (Suc n)) x) = remdups_adj ((xs @ replicate n x) @ [x, x])"
    by (simp only: r2 append.assoc)
  also have "\<dots> = remdups_adj ((xs @ replicate n x) @ [x])"
    by (simp only: remdups_adj_append_two) simp
  also have "\<dots> = remdups_adj (xs @ replicate (Suc n) x)"
    by (simp only: r1 append.assoc)
  finally show ?case using Suc by simp
qed

lemma steps_of_bench_tail:
  "steps_of (cs @ replicate 310 (CallPipeline Bench) @ replicate 310 (CallPipeline Bench)) =
     remdups_adj (List.map_filter step_of cs @ [Benchmark])"
proof -
  have "List.map_filter step_of
          (cs @ replicate 310 (CallPipeline Bench) @ replicate 310 (CallPipeline Bench))
        = List.map_filter step_of cs @ replicate (Suc 619) Benchmark"
    by (simp add: map_filter_append map_filter_bench flip: replicate_add)
  then show ?thesis
    unfolding steps_of_def by (simp only: remdups_adj_replicate_tail)
qed

lemma notebook1_calls:
  "calls_of (notebook1 ops ps dev ver d oa) =
     [PipInstall, Import ''onnxruntime'', Import ''onnxruntime'', GetAvailableProviders, GetDevice,
      Import ''optimum.onnxruntime'', Import ''transformers'', Import ''pathlib'',
      ExportToOnnx, LoadTokenizer, SaveModel, SaveTokenizer,
      Import ''transformers'', CreatePipeline ''question-answering'', CallPipeline Demo,
      Import ''optimum.onnxruntime'', Import ''optimum.onnxruntime.configuration'',
      LoadOptimizer, MakeConfig, OptimizerExport,
      Import ''transformers'', LoadOnnxModel, CreatePipeline ''question-answering'',
      CallPipeline Demo,
      Import ''transformers'', CreatePipeline ''question-answering'',
      Import ''datasets'', LoadMetric, LoadMetric, LoadDataset,
      DatasetMap, MetricCompute, MetricCompute,
      Import ''time'', Import ''numpy''] @
     replicate 310 (CallPipeline Bench) @ replicate 310 (CallPipeline Bench)"
  by (simp add: notebook1_def nb1_install_def nb1_setup_def export_cell_def nb1_inputs_def
      nb1_vanilla_pipeline_def nb1_optimize_def nb1_reload_def nb1_trfs_pipeline_def
      nb1_load_data_def nb1_evaluate_def nb1_benchmark_def calls_of_append calls_of_shapes)

lemma notebook2_calls:
  "calls_of (notebook2 ops d oa q r) =
     [PipInstall,
      Import ''optimum.onnxruntime'', Import ''transformers'', Import ''pathlib'',
      ExportToOnnx, LoadTokenizer, SaveModel, SaveTokenizer,
      Tokenize,
      Import ''transformers'', CreatePipeline ''question-answering'', CallPipeline Demo,
      Import ''optimum.onnxruntime'', Import ''optimum.onnxruntime.configuration'',
      LoadOptimizer, MakeConfig, OptimizerExport,
      Import ''transformers'', LoadOnnxModel, CreatePipeline ''question-answering'',
      CallPipeline Demo,
      Import ''optimum.onnxruntime'', Import ''optimum.onnxruntime.configuration'',
      LoadQuantizer, MakeConfig, QuantizerExport,
      Import ''os'',
      Import ''optimum.onnxruntime'', Import ''transformers'',
      LoadOnnxModel, LoadTokenizer, CreatePipeline ''question-answering'', CallPipeline Demo,
      Import ''datasets'', LoadMetric, LoadDataset, DatasetSelect,
      DatasetMap, MetricCompute, MetricCompute,
      Import ''time'', Import ''numpy'', Tokenize, CreatePipeline ''text-classification''] @
     replicate 310 (CallPipeline Bench) @ replicate 310 (CallPipeline Bench)"
  by (simp add: notebook2_def nb2_install_def export_cell_def nb2_inputs_def
      nb2_vanilla_pipeline_def nb2_optimize_def nb2_reload_def nb2_quantize_def nb2_sizes_def
      nb2_reload_again_def nb2_load_data_def nb2_evaluate_def nb2_metrics_def nb2_benchmark_def
      calls_of_append calls_of_shapes)

lemma notebook1_steps:
  "steps_of (calls_of (notebook1 ops ps dev ver d oa)) = [Export, Optimize, Reload, Evaluate, Benchmark]"
  unfolding notebook1_calls steps_of_bench_tail by simp

lemma notebook2_steps:
  "steps_of (calls_of (notebook2 ops d oa q r)) =
     [Export, Optimize, Reload, Quantize, Reload, Evaluate, Benchmark]"
  unfolding notebook2_calls steps_of_bench_tail by simp

lemma run_Use_bound:
  "raised k = None \<Longrightarrow> set xs \<subseteq> names k \<Longrightarrow> run ext (map Use xs @ ss) k = run ext ss k"
  by (induction xs) simp_all

lemma run_bench_calls:
  assumes "\<forall>i f. ext i (CallPipeline Bench) f = (None, f)" "set pre \<subseteq> names k" "set post \<subseteq> names k"
    "raised k = None"
  shows "run ext (concat (replicate n (map Use pre @ Lib (CallPipeline Bench) # map Use post)) @ ss) k =
         run ext ss (k\<lparr>trace := trace k @ replicate n (CallPipeline Bench)\<rparr>)"
  using assms(2-)
proof (induction n arbitrary: k)
  case 0
  then show ?case by simp
next
  case (Suc n)
  define k' where "k' = k\<lparr>trace := trace k @ [CallPipeline Bench]\<rparr>"
  have k': "names k' = names k" "raised k' = None" "files k' = files k"
    using Suc.prems by (simp_all add: k'_def)
  have step: "run ext (map Use pre @ Lib (CallPipeline Bench) # map Use post @ rest) k
      = run ext rest k'" for rest
  proof -
    have "run ext (map Use pre @ Lib (CallPipeline Bench) # map Use post @ rest) k
        = run ext (Lib (CallPipeline Bench) # map Use post @ rest) k"
      using Suc.prems by (intro run_Use_bound) simp_all
    also have "\<dots> = run ext (map Use post @ rest) k'"
    proof -
      have "k\<lparr>files := files k, trace := trace k @ [CallPipeline Bench], raised := None\<rparr> = k'"
        unfolding k'_def using Suc.prems(3) by (cases k) simp
      then show ?thesis using Suc.prems assms(1) by simp
    qed
    also have "\<dots> = run ext rest k'"
      using Suc.prems k' by (intro run_Use_bound) simp_all
    finally show ?thesis .
  qed
  have "run ext (concat (replicate (Suc n) (map Use pre @ Lib (CallPipeline Bench) # map Use post)) @ ss) k
      = run ext (concat (replicate n (map Use pre @ Lib (CallPipeline Bench) # map Use post)) @ ss) k'"
    using step [of "concat (replicate n (map Use pre @ Lib (CallPipeline Bench) # map Use post)) @ ss"]
    by simp
  also have "\<dots> = run ext ss (k'\<lparr>trace := trace k' @ replicate n (CallPipeline Bench)\<rparr>)"
    using Suc.prems k' by (intro Suc.IH) simp_all
  also have "k'\<lparr>trace := trace k' @ replicate n (CallPipeline Bench)\<rparr>
      = k\<lparr>trace := trace k @ replicate (Suc n) (CallPipeline Bench)\<rparr>"
    by (simp add: k'_def replicate_app_Cons_same)
  finally show ?case .
qed

lemma run_measure_latency_stmts:
  assumes "\<forall>i f. ext i (CallPipeline Bench) f = (None, f)" "raised k = None"
    "{''measure_latency'', ''perf_counter'', ''np'', p} \<union> set g \<subseteq> names k"
  shows "run ext (measure_latency_stmts x p g @ ss) k =
         run ext ss (k\<lparr>trace := trace k @ replicate 310 (CallPipeline Bench),
                       names := insert x (names k)\<rparr>)"
proof -
  define k1 where "k1 = k\<lparr>trace := trace k @ replicate 10 (CallPipeline Bench)\<rparr>"
  define k2 where "k2 = k1\<lparr>trace := trace k1 @ replicate 300 (CallPipeline Bench)\<rparr>"
  have n: "names k1 = names k" "raised k1 = None" "names k2 = names k" "raised k2 = None"
    using assms(2) by (simp_all add: k1_def k2_def)
  have b1: "run ext (concat (replicate 10 (map Use g @ [Lib (CallPipeline Bench)])) @ rest) k
      = run ext rest k1" for rest
    using run_bench_calls [of ext g k "[]" 10 rest] assms by (simp add: k1_def)
  have b2: "run ext (concat (replicate 300 (Use ''perf_counter'' # map Use g @
                            [Lib (CallPipeline Bench), Use ''perf_counter''])) @ rest) k1
      = run ext rest k2" for rest
    using run_bench_calls [of ext "''perf_counter'' # g" k1 "[''perf_counter'']" 300 rest] assms n
    by (simp add: k2_def)
  have "run ext (measure_latency_stmts x p g @ ss) k =
      run ext ((concat (replicate 10 (map Use g @ [Lib (CallPipeline Bench)]))) @
         (concat (replicate 300 (Use ''perf_counter'' # map Use g @
                            [Lib (CallPipeline Bench), Use ''perf_counter''])) @
          ([Use ''np'', Use ''np'', Use ''np'', Assign x] @ ss))) k"
    using assms(2,3) by (simp add: measure_latency_stmts_def)
  also have "\<dots> = run ext ([Use ''np'', Use ''np'', Use ''np'', Assign x] @ ss) k2"
    by (simp only: b1 b2)
  also have "\<dots> = run ext ss (k2\<lparr>names := insert x (names k2)\<rparr>)"
    using assms(3) n by simp
  also have "k2\<lparr>names := insert x (names k2)\<rparr> =
      k\<lparr>trace := trace k @ replicate 310 (CallPipeline Bench), names := insert x (names k)\<rparr>"
    by (simp add: k2_def k1_def flip: replicate_add)
  finally show ?thesis .
qed

lemmas cell_defs =
  import_from_def call_def assign_call_def
  nb1_install_def nb1_setup_def export_cell_def nb1_inputs_def
  nb1_vanilla_pipeline_def nb1_optimize_def nb1_reload_def nb1_trfs_pipeline_def
  nb1_load_data_def nb1_evaluate_def nb1_benchmark_def
  nb2_install_def nb2_inputs_def
  nb2_vanilla_pipeline_def nb2_optimize_def nb2_reload_def nb2_quantize_def nb2_sizes_def
  nb2_reload_again_def nb2_load_data_def nb2_evaluate_def nb2_metrics_def nb2_benchmark_def

lemma sample_ext_bench: "\<forall>i f. sample_ext i (CallPipeline Bench) f = (None, f)"
  by (simp add: sample_ext_def)

lemma notebook1_sample_run:
  "raised (run sample_ext
     (notebook1 ops [''CUDAExecutionProvider'', ''CPUExecutionProvider''] ''GPU'' ''1.12.0''
        [''exact_match'' \<mapsto> 80, ''f1'' \<mapsto> 87] [''exact_match'' \<mapsto> 79, ''f1'' \<mapsto> 87])
     (fresh_kernel Map.empty)) = None"
  by (simp add: notebook1_def cell_defs fresh_kernel_def kernel_with_def
      run_measure_latency_stmts [of sample_ext, OF sample_ext_bench] sample_ext_def str_gt_def
      eval_print_nb1_def retention_line_nb1_def lookup_def)

lemma notebook2_sample_run:
  "raised (run sample_ext
     (notebook2 ops [''exact'' \<mapsto> 80, ''f1'' \<mapsto> 87] [''exact'' \<mapsto> 79, ''f1'' \<mapsto> 86]
        [''exact'' \<mapsto> 78, ''f1'' \<mapsto> 85] [''accuracy'' \<mapsto> 9224 / 10000])
     (kernel_with Map.empty {''text'', ''task'', ''optimum_qa'', ''opt_optimum_qa'', ''quantized'',
        ''results'', ''clx''})) = None"
  by (simp add: notebook2_def cell_defs kernel_with_def
      run_measure_latency_stmts [of sample_ext, OF sample_ext_bench] sample_ext_def
      eval_print_nb2_def exact_f1_line_def retention_line_nb2_def lookup_def)

lemma notebook1_cpu_run:
  "run sample_ext
     (notebook1 ops [''CUDAExecutionProvider'', ''CPUExecutionProvider''] ''CPU'' ''1.12.0''
        [''exact_match'' \<mapsto> 80, ''f1'' \<mapsto> 87] [''exact_match'' \<mapsto> 79, ''f1'' \<mapsto> 87])
     (fresh_kernel Map.empty) =
   \<lparr>files = Map.empty,
    names = {''get_available_providers'', ''get_device'', ''onnxruntime''},
    trace = [PipInstall, Import ''onnxruntime'', Import ''onnxruntime'', GetAvailableProviders,
             GetDevice],
    raised = Some (AssertionError [])\<rparr>"
  by (simp add: notebook1_def cell_defs fresh_kernel_def kernel_with_def run_raised
      sample_ext_def insert_commute)

lemma no_writes_shapes:
  "list_all (\<lambda>s. \<not> writes_files s) (import_from m xs)"
  "list_all (\<lambda>s. \<not> writes_files s) (call ys c)"
  "list_all (\<lambda>s. \<not> writes_files s) (assign_call x ys c)"
  "list_all (\<lambda>s. \<not> writes_files s) (measure_latency_stmts x p g)"
  by (auto simp: import_from_def call_def assign_call_def measure_latency_stmts_def list_all_iff)

lemma notebooks_no_writes:
  "list_all (\<lambda>s. \<not> writes_files s) (notebook1 ops ps dev ver d oa)"
  "list_all (\<lambda>s. \<not> writes_files s) (notebook2 ops d oa q r)"
  by (simp_all add: notebook1_def notebook2_def
      nb1_install_def nb1_setup_def export_cell_def nb1_inputs_def
      nb1_vanilla_pipeline_def nb1_optimize_def nb1_reload_def nb1_trfs_pipeline_def
      nb1_load_data_def nb1_evaluate_def nb1_benchmark_def
      nb2_install_def nb2_inputs_def
      nb2_vanilla_pipeline_def nb2_optimize_def nb2_reload_def nb2_quantize_def nb2_sizes_def
      nb2_reload_again_def nb2_load_data_def nb2_evaluate_def nb2_metrics_def nb2_benchmark_def
      no_writes_shapes)

lemma no_touch_shapes:
  "filter touches_files (import_from m xs) = []"
  "filter touches_files (call ys c) = []"
  "filter touches_files (assign_call x ys c) = []"
  "filter touches_files (measure_latency_stmts x p g) = []"
  by (auto simp: import_from_def call_def assign_call_def measure_latency_stmts_def
      filter_empty_conv)

lemma notebooks_touches:
  "filter touches_files (notebook1 ops ps dev ver d oa) = []"
  "filter touches_files (notebook2 ops d oa q r) =
     [GetSize ''onnx/model-optimized.onnx'', GetSize ''onnx/model-quantized.onnx'']"
  by (simp_all add: notebook1_def notebook2_def
      nb1_install_def nb1_setup_def export_cell_def nb1_inputs_def
      nb1_vanilla_pipeline_def nb1_optimize_def nb1_reload_def nb1_trfs_pipeline_def
      nb1_load_data_def nb1_evaluate_def nb1_benchmark_def
      nb2_install_def nb2_inputs_def
      nb2_vanilla_pipeline_def nb2_optimize_def nb2_reload_def nb2_quantize_def nb2_sizes_def
      nb2_reload_again_def nb2_load_data_def nb2_evaluate_def nb2_metrics_def nb2_benchmark_def
      no_touch_shapes)

lemma run_from_kernel_with:
  "\<exists>zs. trace (run ext ss (kernel_with fs bound)) = zs \<and> prefix zs (calls_of ss) \<and>
        (raised (run ext ss (kernel_with fs bound)) = None \<longrightarrow> zs = calls_of ss) \<and>
        (list_all (\<lambda>s. \<not> writes_files s) ss \<longrightarrow>
           files (run ext ss (kernel_with fs bound)) = replay ext 0 zs fs)"
  using run_trace [of "kernel_with fs bound" ext ss] by (simp add: kernel_with_def)

lemma run_steps:
  "prefix (steps_of (trace (run ext ss (kernel_with fs bound)))) (steps_of (calls_of ss)) \<and>
   (raised (run ext ss (kernel_with fs bound)) = None \<longrightarrow>
      steps_of (trace (run ext ss (kernel_with fs bound))) = steps_of (calls_of ss))"
  using run_from_kernel_with [of ext ss fs bound] steps_of_prefix by auto

text \<open>
  From a fresh kernel the second notebook does not get past its third cell: the call
  of the tokenizer reads \<open>text\<close>, which is unbound, and the export is the only step
  made. The statements about the second notebook are therefore made for a kernel with
  any names bound.
\<close>

lemma notebook2_fresh_run:
  "raised (run sample_ext (notebook2 ops d oa q r) (fresh_kernel Map.empty)) =
     Some (NameError ''text'')"
  "trace (run sample_ext (notebook2 ops d oa q r) (fresh_kernel Map.empty)) =
     [PipInstall, Import ''optimum.onnxruntime'', Import ''transformers'', Import ''pathlib'',
      ExportToOnnx, LoadTokenizer, SaveModel, SaveTokenizer]"
  by (simp_all add: notebook2_def cell_defs fresh_kernel_def kernel_with_def run_raised
      run_append sample_ext_def)

text \<open>
  C7, as amended. Run from top to bottom in a kernel with any files and any names
  bound, and whatever the library calls return or raise, the library calls a notebook
  makes are a beginning of one list of calls, which is the same whatever the providers,
  the device, the version and the scores are, and its steps are a beginning of one list
  of steps: export, optimization, reload, evaluation, benchmark in the first notebook,
  and export, optimization, reload, quantization, reload, evaluation, benchmark in the
  second. So no step is reordered, and none is skipped while a later one is made. When
  no statement raises, all the steps are made; whenever a step is missing, a statement
  has raised an exception.
\<close>

theorem notebook_steps_in_order:
  "prefix (trace (run ext (notebook1 ops ps dev ver d oa) (kernel_with fs bound)))
     (calls_of (notebook1 ops' ps' dev' ver' d' oa')) \<and>
   prefix (steps_of (trace (run ext (notebook1 ops ps dev ver d oa) (kernel_with fs bound))))
     [Export, Optimize, Reload, Evaluate, Benchmark] \<and>
   (raised (run ext (notebook1 ops ps dev ver d oa) (kernel_with fs bound)) = None \<longrightarrow>
      steps_of (trace (run ext (notebook1 ops ps dev ver d oa) (kernel_with fs bound))) =
        [Export, Optimize, Reload, Evaluate, Benchmark]) \<and>
   (steps_of (trace (run ext (notebook1 ops ps dev ver d oa) (kernel_with fs bound))) \<noteq>
        [Export, Optimize, Reload, Evaluate, Benchmark] \<longrightarrow>
      (\<exists>e. raised (run ext (notebook1 ops ps dev ver d oa) (kernel_with fs bound)) = Some e)) \<and>
   prefix (trace (run ext (notebook2 ops d2 oa2 q r) (kernel_with fs2 bound2)))
     (calls_of (notebook2 ops' d2' oa2' q' r')) \<and>
   prefix (steps_of (trace (run ext (notebook2 ops d2 oa2 q r) (kernel_with fs2 bound2))))
     [Export, Optimize, Reload, Quantize, Reload, Evaluate, Benchmark] \<and>
   (raised (run ext (notebook2 ops d2 oa2 q r) (kernel_with fs2 bound2)) = None \<longrightarrow>
      steps_of (trace (run ext (notebook2 ops d2 oa2 q r) (kernel_with fs2 bound2))) =
        [Export, Optimize, Reload, Quantize, Reload, Evaluate, Benchmark]) \<and>
   (steps_of (trace (run ext (notebook2 ops d2 oa2 q r) (kernel_with fs2 bound2))) \<noteq>
        [Export, Optimize, Reload, Quantize, Reload, Evaluate, Benchmark] \<longrightarrow>
      (\<exists>e. raised (run ext (notebook2 ops d2 oa2 q r) (kernel_with fs2 bound2)) = Some e))"
proof -
  have c1: "calls_of (notebook1 ops ps dev ver d oa) = calls_of (notebook1 ops' ps' dev' ver' d' oa')"
    unfolding notebook1_calls ..
  have c2: "calls_of (notebook2 ops d2 oa2 q r) = calls_of (notebook2 ops' d2' oa2' q' r')"
    unfolding notebook2_calls ..
  from run_from_kernel_with [of ext "notebook1 ops ps dev ver d oa" fs bound]
  have p1: "prefix (trace (run ext (notebook1 ops ps dev ver d oa) (kernel_with fs bound)))
     (calls_of (notebook1 ops' ps' dev' ver' d' oa'))"
    unfolding c1 by simp
  from run_from_kernel_with [of ext "notebook2 ops d2 oa2 q r" fs2 bound2]
  have p2: "prefix (trace (run ext (notebook2 ops d2 oa2 q r) (kernel_with fs2 bound2)))
     (calls_of (notebook2 ops' d2' oa2' q' r'))"
    unfolding c2 by simp
  from run_steps [of ext "notebook1 ops ps dev ver d oa" fs bound]
  have s1: "prefix (steps_of (trace (run ext (notebook1 ops ps dev ver d oa) (kernel_with fs bound))))
     [Export, Optimize, Reload, Evaluate, Benchmark]"
    "raised (run ext (notebook1 ops ps dev ver d oa) (kernel_with fs bound)) = None \<longrightarrow>
      steps_of (trace (run ext (notebook1 ops ps dev ver d oa) (kernel_with fs bound))) =
        [Export, Optimize, Reload, Evaluate, Benchmark]"
    unfolding notebook1_steps by simp_all
  from run_steps [of ext "notebook2 ops d2 oa2 q r" fs2 bound2]
  have s2: "prefix (steps_of (trace (run ext (notebook2 ops d2 oa2 q r) (kernel_with fs2 bound2))))
     [Export, Optimize, Reload, Quantize, Reload, Evaluate, Benchmark]"
    "raised (run ext (notebook2 ops d2 oa2 q r) (kernel_with fs2 bound2)) = None \<longrightarrow>
      steps_of (trace (run ext (notebook2 ops d2 oa2 q r) (kernel_with fs2 bound2))) =
        [Export, Optimize, Reload, Quantize, Reload, Evaluate, Benchmark]"
    unfolding notebook2_steps by simp_all
  from s1(2) have n1: "steps_of (trace (run ext (notebook1 ops ps dev ver d oa) (kernel_with fs bound))) \<noteq>
        [Export, Optimize, Reload, Evaluate, Benchmark] \<longrightarrow>
      (\<exists>e. raised (run ext (notebook1 ops ps dev ver d oa) (kernel_with fs bound)) = Some e)"
    by (cases "raised (run ext (notebook1 ops ps dev ver d oa) (kernel_with fs bound))") simp_all
  from s2(2) have n2: "steps_of (trace (run ext (notebook2 ops d2 oa2 q r) (kernel_with fs2 bound2))) \<noteq>
        [Export, Optimize, Reload, Quantize, Reload, Evaluate, Benchmark] \<longrightarrow>
      (\<exists>e. raised (run ext (notebook2 ops d2 oa2 q r) (kernel_with fs2 bound2)) = Some e)"
    by (cases "raised (run ext (notebook2 ops d2 oa2 q r) (kernel_with fs2 bound2))") simp_all
  from p1 s1 n1 p2 s2 n2 show ?thesis by (intro conjI)
qed

theorem notebook_steps_in_order_witness:
  "steps_of (trace (run sample_ext
     (notebook1 exact_ops [''CUDAExecutionProvider'', ''CPUExecutionProvider''] ''GPU'' ''1.12.0''
        [''exact_match'' \<mapsto> 80, ''f1'' \<mapsto> 87] [''exact_match'' \<mapsto> 79, ''f1'' \<mapsto> 87])
     (kernel_with Map.empty {}))) = [Export, Optimize, Reload, Evaluate, Benchmark] \<and>
   steps_of (trace (run sample_ext
     (notebook1 exact_ops [''CUDAExecutionProvider'', ''CPUExecutionProvider''] ''CPU'' ''1.12.0''
        [''exact_match'' \<mapsto> 80, ''f1'' \<mapsto> 87] [''exact_match'' \<mapsto> 79, ''f1'' \<mapsto> 87])
     (kernel_with Map.empty {}))) = [] \<and>
   (\<exists>e. raised (run sample_ext
     (notebook1 exact_ops [''CUDAExecutionProvider'', ''CPUExecutionProvider''] ''CPU'' ''1.12.0''
        [''exact_match'' \<mapsto> 80, ''f1'' \<mapsto> 87] [''exact_match'' \<mapsto> 79, ''f1'' \<mapsto> 87])
     (kernel_with Map.empty {})) = Some e) \<and>
   steps_of (trace (run sample_ext
     (notebook2 exact_ops [''exact'' \<mapsto> 80, ''f1'' \<mapsto> 87] [''exact'' \<mapsto> 79, ''f1'' \<mapsto> 86]
        [''exact'' \<mapsto> 78, ''f1'' \<mapsto> 85] [''accuracy'' \<mapsto> 9224 / 10000])
     (kernel_with Map.empty {''text'', ''task'', ''optimum_qa'', ''opt_optimum_qa'', ''quantized'',
        ''results'', ''clx''}))) = [Export, Optimize, Reload, Quantize, Reload, Evaluate, Benchmark] \<and>
   steps_of (trace (run sample_ext
     (notebook2 exact_ops [''exact'' \<mapsto> 80, ''f1'' \<mapsto> 87] [''exact'' \<mapsto> 79, ''f1'' \<mapsto> 86]
        [''exact'' \<mapsto> 78, ''f1'' \<mapsto> 85] [''accuracy'' \<mapsto> 9224 / 10000])
     (kernel_with Map.empty {}))) = [Export] \<and>
   (\<exists>e. raised (run sample_ext
     (notebook2 exact_ops [''exact'' \<mapsto> 80, ''f1'' \<mapsto> 87] [''exact'' \<mapsto> 79, ''f1'' \<mapsto> 86]
        [''exact'' \<mapsto> 78, ''f1'' \<mapsto> 85] [''accuracy'' \<mapsto> 9224 / 10000])
     (kernel_with Map.empty {})) = Some e)"
proof -
  define gpu where "gpu = notebook1 exact_ops [''CUDAExecutionProvider'', ''CPUExecutionProvider'']
      ''GPU'' ''1.12.0'' [''exact_match'' \<mapsto> 80, ''f1'' \<mapsto> 87] [''exact_match'' \<mapsto> 79, ''f1'' \<mapsto> 87]"
  define cpu where "cpu = notebook1 exact_ops [''CUDAExecutionProvider'', ''CPUExecutionProvider'']
      ''CPU'' ''1.12.0'' [''exact_match'' \<mapsto> 80, ''f1'' \<mapsto> 87] [''exact_match'' \<mapsto> 79, ''f1'' \<mapsto> 87]"
  define nb2 where "nb2 = notebook2 exact_ops [''exact'' \<mapsto> 80, ''f1'' \<mapsto> 87]
      [''exact'' \<mapsto> 79, ''f1'' \<mapsto> 86] [''exact'' \<mapsto> 78, ''f1'' \<mapsto> 85]
      [''accuracy'' \<mapsto> 9224 / 10000]"
  define all_bound where "all_bound = {''text'', ''task'', ''optimum_qa'', ''opt_optimum_qa'',
      ''quantized'', ''results'', ''clx''}"
  have r1: "raised (run sample_ext gpu (kernel_with Map.empty {})) = None"
    unfolding gpu_def by (rule notebook1_sample_run [unfolded fresh_kernel_def])
  have r2: "raised (run sample_ext nb2 (kernel_with Map.empty all_bound)) = None"
    unfolding nb2_def all_bound_def by (rule notebook2_sample_run)
  have t1: "steps_of (trace (run sample_ext cpu (kernel_with Map.empty {}))) = []"
    unfolding cpu_def notebook1_cpu_run [unfolded fresh_kernel_def] by (simp add: steps_of_def)
  have t2: "steps_of (trace (run sample_ext nb2 (kernel_with Map.empty {}))) = [Export]"
    unfolding nb2_def notebook2_fresh_run(2) [unfolded fresh_kernel_def]
    by (simp add: steps_of_def List.map_filter_def)
  note a = notebook_steps_in_order
    [where ext = sample_ext and ops = exact_ops
       and ps = "[''CUDAExecutionProvider'', ''CPUExecutionProvider'']" and dev = "''GPU''"
       and ver = "''1.12.0''" and d = "[''exact_match'' \<mapsto> 80, ''f1'' \<mapsto> 87]"
       and oa = "[''exact_match'' \<mapsto> 79, ''f1'' \<mapsto> 87]" and fs = Map.empty and bound = "{}"
       and ?d2.0 = "[''exact'' \<mapsto> 80, ''f1'' \<mapsto> 87]" and ?oa2.0 = "[''exact'' \<mapsto> 79, ''f1'' \<mapsto> 86]"
       and q = "[''exact'' \<mapsto> 78, ''f1'' \<mapsto> 85]" and r = "[''accuracy'' \<mapsto> 9224 / 10000]"
       and ?fs2.0 = Map.empty and ?bound2.0 = all_bound,
     folded gpu_def nb2_def]
  note b = notebook_steps_in_order
    [where ext = sample_ext and ops = exact_ops
       and ps = "[''CUDAExecutionProvider'', ''CPUExecutionProvider'']" and dev = "''CPU''"
       and ver = "''1.12.0''" and d = "[''exact_match'' \<mapsto> 80, ''f1'' \<mapsto> 87]"
       and oa = "[''exact_match'' \<mapsto> 79, ''f1'' \<mapsto> 87]" and fs = Map.empty and bound = "{}"
       and ?d2.0 = "[''exact'' \<mapsto> 80, ''f1'' \<mapsto> 87]" and ?oa2.0 = "[''exact'' \<mapsto> 79, ''f1'' \<mapsto> 86]"
       and q = "[''exact'' \<mapsto> 78, ''f1'' \<mapsto> 85]" and r = "[''accuracy'' \<mapsto> 9224 / 10000]"
       and ?fs2.0 = Map.empty and ?bound2.0 = "{}",
     folded cpu_def nb2_def]
  from a r1 have 1: "steps_of (trace (run sample_ext gpu (kernel_with Map.empty {}))) =
      [Export, Optimize, Reload, Evaluate, Benchmark]"
    by simp
  from a r2 have 2: "steps_of (trace (run sample_ext nb2 (kernel_with Map.empty all_bound))) =
      [Export, Optimize, Reload, Quantize, Reload, Evaluate, Benchmark]"
    by simp
  from b t1 have 3: "\<exists>e. raised (run sample_ext cpu (kernel_with Map.empty {})) = Some e"
    by simp
  from b t2 have 4: "\<exists>e. raised (run sample_ext nb2 (kernel_with Map.empty {})) = Some e"
    by simp
  from 1 t1 3 2 t2 4 show ?thesis
    unfolding gpu_def cpu_def nb2_def all_bound_def by (intro conjI)
qed

text \<open>
  C7 as stated fails in the first notebook: on a machine whose device is reported as
  "CPU" the second assertion of the setup cell raises, and no step is made, not even
  the export, although no library call has failed.
\<close>

theorem notebook1_gate_counterexample:
  "steps_of (trace (run sample_ext
     (notebook1 exact_ops [''CUDAExecutionProvider'', ''CPUExecutionProvider''] ''CPU'' ''1.12.0''
        [''exact_match'' \<mapsto> 80, ''f1'' \<mapsto> 87] [''exact_match'' \<mapsto> 79, ''f1'' \<mapsto> 87])
     (fresh_kernel Map.empty))) = [] \<and>
   raised (run sample_ext
     (notebook1 exact_ops [''CUDAExecutionProvider'', ''CPUExecutionProvider''] ''CPU'' ''1.12.0''
        [''exact_match'' \<mapsto> 80, ''f1'' \<mapsto> 87] [''exact_match'' \<mapsto> 79, ''f1'' \<mapsto> 87])
     (fresh_kernel Map.empty)) = Some (AssertionError [])"
  unfolding notebook1_cpu_run by (simp add: steps_of_def)

text \<open>
  C10. The notebooks' own statements never write or delete a file: after a run of
  either notebook, from any kernel and whatever the libraries do, the files are exactly
  what the library calls made, in their order, have left; so everything that is
  persisted is persisted inside a library call. The only statements by which the
  notebooks themselves touch the files are the two calls of \<open>os.path.getsize\<close> in the
  second notebook, which read the sizes of the optimized and of the quantized model;
  the first notebook has none.
\<close>

theorem notebooks_leave_files_to_libraries:
  "files (run ext (notebook1 ops ps dev ver d oa) (kernel_with fs bound)) =
     replay ext 0 (trace (run ext (notebook1 ops ps dev ver d oa) (kernel_with fs bound))) fs \<and>
   files (run ext (notebook2 ops d2 oa2 q r) (kernel_with fs bound)) =
     replay ext 0 (trace (run ext (notebook2 ops d2 oa2 q r) (kernel_with fs bound))) fs \<and>
   filter touches_files (notebook1 ops ps dev ver d oa) = [] \<and>
   filter touches_files (notebook2 ops d2 oa2 q r) =
     [GetSize ''onnx/model-optimized.onnx'', GetSize ''onnx/model-quantized.onnx''] \<and>
   filter writes_files (notebook1 ops ps dev ver d oa) = [] \<and>
   filter writes_files (notebook2 ops d2 oa2 q r) = []"
proof -
  have w: "filter writes_files ss = []" if "list_all (\<lambda>s. \<not> writes_files s) ss" for ss
    using that by (simp add: filter_empty_conv list_all_iff)
  show ?thesis
    using run_from_kernel_with [of ext "notebook1 ops ps dev ver d oa" fs bound]
      run_from_kernel_with [of ext "notebook2 ops d2 oa2 q r" fs bound]
      notebooks_no_writes(1) [of ops ps dev ver d oa] notebooks_no_writes(2) [of ops d2 oa2 q r]
      notebooks_touches(1) [of ops ps dev ver d oa] notebooks_touches(2) [of ops d2 oa2 q r]
      w [of "notebook1 ops ps dev ver d oa"] w [of "notebook2 ops d2 oa2 q r"]
    by simp
qed

section \<open>The benchmark cell of the second notebook\<close>

text \<open>
  C8. The question-answering cells exchange what the claim says (lemma
  \<open>qa_requests_and_answers\<close>). The benchmark cell of the second notebook does not: the
  pipeline it creates is one for text classification, and its \<open>measure_latency\<close> calls
  \<open>pipe(payload)\<close>. Each of the 310 requests of a measurement is the payload string,
  with no question and no context, and the response recorded in the notebook for that
  payload is a list of a label with its score, with no answer and no span.
\<close>

theorem measure_latency_nb2_sends_payload:
  "calls_of nb2_benchmark =
     [Import ''time'', Import ''numpy'', Tokenize, CreatePipeline ''text-classification''] @
     replicate 310 (CallPipeline Bench) @ replicate 310 (CallPipeline Bench) \<and>
   measure_latency_nb2 sample_clx real = measure_latency_with (Text bench_payload) sample_clx real \<and>
   (\<exists>report p95 b.
      measure_latency_nb2 sample_clx real = Inr (report, p95) \<and>
      run_loops sample_clx real (Text bench_payload) = Inr b \<and>
      events b = map (\<lambda>k. PipeCall k (Text bench_payload)) [0..<10] @
                 concat (map (\<lambda>i. [PerfCounter (2 * i), PipeCall (10 + i) (Text bench_payload),
                                     PerfCounter (2 * i + 1)]) [0..<300])) \<and>
   (\<forall>question context. Text bench_payload \<noteq> QA question context) \<and>
   sample_clx 0 (Text bench_payload) = Inr [(''exchange_rate'', 9802021384239197 / 10 ^ 16)]"
proof -
  have A: "calls_of nb2_benchmark =
     [Import ''time'', Import ''numpy'', Tokenize, CreatePipeline ''text-classification''] @
     replicate 310 (CallPipeline Bench) @ replicate 310 (CallPipeline Bench)"
    by (simp add: nb2_benchmark_def calls_of_append calls_of_shapes)
  have B: "measure_latency_nb2 sample_clx real =
      measure_latency_with (Text bench_payload) sample_clx real"
    by (simp add: measure_latency_nb2_def)
  have ok: "\<forall>k<310. \<exists>r. sample_clx k (Text bench_payload) = Inr r"
    by (simp add: sample_clx_def)
  from measure_latency_with_ok [of sample_clx "Text bench_payload" real, OF ok]
  obtain report p95 where m: "measure_latency_nb2 sample_clx real = Inr (report, p95)"
    unfolding measure_latency_nb2_def by blast
  from run_loops_ok [of sample_clx "Text bench_payload" real, OF ok]
  obtain b where b: "run_loops sample_clx real (Text bench_payload) = Inr b"
    and ev: "events b = map (\<lambda>k. PipeCall k (Text bench_payload)) [0..<10] @
                 concat (map (\<lambda>i. [PerfCounter (2 * i), PipeCall (10 + i) (Text bench_payload),
                                     PerfCounter (2 * i + 1)]) [0..<300])"
    by simp
  have C: "\<exists>report p95 b.
      measure_latency_nb2 sample_clx real = Inr (report, p95) \<and>
      run_loops sample_clx real (Text bench_payload) = Inr b \<and>
      events b = map (\<lambda>k. PipeCall k (Text bench_payload)) [0..<10] @
                 concat (map (\<lambda>i. [PerfCounter (2 * i), PipeCall (10 + i) (Text bench_payload),
                                     PerfCounter (2 * i + 1)]) [0..<300])"
    apply (rule exI [where x = report], rule exI [where x = p95], rule exI [where x = b])
    using m b ev by simp
  have D: "\<forall>question context. Text bench_payload \<noteq> QA question context" by simp
  have E: "sample_clx 0 (Text bench_payload) = Inr [(''exchange_rate'', 9802021384239197 / 10 ^ 16)]"
    by (simp add: sample_clx_def)
  from A B C D E show ?thesis by (intro conjI)
qed

end
